theory Spec2Isabelle
  imports Complex_Main
begin

section \<open>Flappy Bird: the simulation core of \<open>src/src/FlappyBird.jsx\<close>\<close>

text \<open>
  The component keeps its world in React refs (\<open>birdRef\<close>, \<open>pipesRef\<close>, \<open>gameOverRef\<close>,
  \<open>scoredSetRef\<close>, \<open>worldRef\<close>) and in React state (\<open>displaySize\<close>, \<open>running\<close>,
  \<open>paused\<close>, \<open>mode\<close>, \<open>score\<close>, \<open>best\<close>). The model passes one record \<open>game\<close> holding
  all of them through every function and returns it updated.

  Conventions of the model:
  \<^item> JavaScript numbers are modelled by exact arithmetic: \<open>real\<close> for the quantities the
    code computes with fractions (\<open>y\<close>, \<open>vy\<close>, pipe \<open>x\<close>, gravity, flap, speed), \<open>int\<close> for
    the fields the code only ever assigns an integer literal or a \<open>Math.round\<close> result
    (\<open>displaySize\<close>, \<open>pipeGap\<close>, \<open>pipeWidth\<close>, \<open>pipeSpacing\<close>, \<open>groundY\<close>, bird \<open>x\<close> and
    \<open>r\<close>, \<open>topH\<close>, \<open>score\<close>, \<open>best\<close>).
  \<^item> \<open>Math.random()\<close> is a parameter \<open>rnd\<close>: the \<open>k\<close>-th call returns \<open>rnd k\<close>, and
    the field \<open>draws\<close> counts the calls made so far.
  \<^item> \<open>scoredSetRef\<close> is a JavaScript \<open>Set\<close> of pipe objects compared by identity. Every
    pipe object gets a number \<open>pipe_id\<close> when \<open>makePipeAtX\<close> creates it (\<open>nextId\<close> counts
    the objects created), and the set is the list of the numbers added, in insertion order.
  \<^item> A React setter is modelled as an assignment to the field, and the updater passed
    to \<open>setScore\<close> runs where it is queued.
  \<^item> The functions of the component are closures of one render. The animation loop
    calls the \<open>update\<close> of the render in which the loop effect (lines 286 to 297,
    dependencies \<open>running\<close> and \<open>paused\<close>) last ran, so \<open>update\<close> and the functions it
    calls (\<open>makePipeAtX\<close>, \<open>generateInitialPipes\<close>, the updater of \<open>setScore\<close>) read
    the \<open>best\<close> and the \<open>displaySize\<close> of that render. The fields \<open>loopBest\<close>, \<open>loopW\<close>
    and \<open>loopH\<close> hold these values: \<open>installLoop\<close> copies the current ones into
    them, and \<open>rerender\<close> does so whenever a handler, an effect or a tick has changed
    \<open>running\<close> or \<open>paused\<close>. The \<open>running\<close> and \<open>paused\<close> that \<open>update\<close> reads are
    those of the same render, which are the current ones, since every change of them
    installs the loop again. The refs are shared by all renders and always current.
  \<^item> \<open>resetGame\<close> reads the \<open>displaySize\<close> of its render: \<open>resetGameAt W H\<close> is the
    function in a render whose size is \<open>W\<close> by \<open>H\<close>. The handlers \<open>flap\<close>,
    \<open>togglePause\<close>, \<open>resetGame\<close> and \<open>restart\<close> are modelled as the canvas and the
    buttons call them, on the closures of the current render; the key handler (lines 235
    to 283) holds the closures of the render that installed it, which is the render
    that installed the loop. The size and mode effect runs in the render that has the
    new size or mode and reads that render.
  \<^item> \<open>localStorage\<close> is the field \<open>storage\<close>, holding the integer last written, with
    \<open>writes\<close> logging every \<open>setItem\<close> (a \<open>setItem\<close> that throws is swallowed by
    the code and not modelled); \<open>sounds\<close> logs the calls of \<open>sfxFlap\<close>, \<open>sfxScore\<close>
    and \<open>sfxGameOver\<close>. The audio context itself (\<open>ensureAudio\<close>, \<open>audioRef\<close>)
    and the canvas are not modelled.
  \<^item> Record fields carry a prefix where the source's name is a single letter
    (\<open>bird.x\<close> is \<open>bird_x\<close>, \<open>world.t\<close> is \<open>world_t\<close>); \<open>world.flap\<close> is \<open>flapImpulse\<close>,
    since \<open>flap\<close> is also the name of the input handler.
\<close>

subsection \<open>Data\<close>

text \<open>
  The mode is a string in the source; the selector offers the three values below, and the
  comparisons of the code take every other string for normal.
\<close>

datatype mode = Easy | Normal | Hard

datatype sfx = SfxFlap | SfxScore | SfxGameOver

datatype error = TypeError

record bird =
  bird_x :: int
  bird_y :: real
  bird_vy :: real
  bird_r :: int
  wingAngle :: real

record pipe =
  pipe_id :: nat
  pipe_x :: real
  topH :: int

record world =
  world_t :: int
  gravity :: real
  flapImpulse :: real
  pipeGap :: int
  pipeWidth :: int
  pipeSpacing :: int
  speed :: real
  groundY :: int
  skyColor :: string

record game =
  displayW :: int
  displayH :: int
  running :: bool
  paused :: bool
  mode :: mode
  score :: int
  scoreRef :: int
  best :: int
  loopBest :: int
  loopW :: int
  loopH :: int
  birdRef :: bird
  pipesRef :: "pipe list"
  gameOverRef :: bool
  scoredSetRef :: "nat list"
  worldRef :: world
  nextId :: nat
  draws :: nat
  storage :: "int option"
  writes :: "int list"
  sounds :: "sfx list"

subsection \<open>Numbers\<close>

text \<open>\<open>Math.round\<close> rounds to the nearest integer, a half upwards.\<close>

definition js_round :: "real \<Rightarrow> int" where
  "js_round v = \<lfloor>v + 1 / 2\<rfloor>"

text \<open>\<open>randRange(min, max)\<close>, with \<open>u\<close> the value \<open>Math.random()\<close> returned.\<close>

definition randRange :: "int \<Rightarrow> int \<Rightarrow> real \<Rightarrow> int" where
  "randRange mn mx u = \<lfloor>u * of_int (mx - mn + 1)\<rfloor> + mn"

subsection \<open>Display size (lines 70 to 76)\<close>

text \<open>
  \<open>recomputeSize()\<close>, with \<open>iw\<close> the value of \<open>window.innerWidth\<close>: the pair is the
  \<open>w\<close> and \<open>h\<close> passed to \<open>setDisplaySize\<close>. The initial size is 960 by 480.
\<close>

definition recomputeSize :: "real \<Rightarrow> int \<times> int" where
  "recomputeSize iw =
     (let vw = max 400 (min 1440 (iw - 32));
          w = js_round vw;
          h = js_round (of_int w / 2)
      in (w, h))"

subsection \<open>Difficulty profile (the size and mode effect, lines 99 to 111)\<close>

definition gapFactor :: "mode \<Rightarrow> real" where
  "gapFactor m = (if m = Easy then 135 / 100 else if m = Hard then 85 / 100 else 1)"

definition speedFactor :: "mode \<Rightarrow> real" where
  "speedFactor m = (if m = Easy then 24 / 10 else if m = Hard then 34 / 10 else 3)"

definition modeSky :: "mode \<Rightarrow> string" where
  "modeSky m = (if m = Easy then ''#FFF7BF'' else if m = Hard then ''#9CA3AF'' else ''#87CEEB'')"

definition computeProfile :: "mode \<Rightarrow> int \<Rightarrow> int \<Rightarrow> world \<Rightarrow> world" where
  "computeProfile m W H w =
     (let s = of_int H / 480;
          baseGap = max (120 * s) (of_int (js_round (of_int H * (28 / 100))))
      in w\<lparr> gravity := (1 / 2) * s,
            flapImpulse := - 9 * s,
            pipeGap := js_round (baseGap * gapFactor m),
            pipeWidth := max 54 (js_round (of_int W * (6 / 100))),
            pipeSpacing := max 260 (js_round (of_int W * (32 / 100))),
            speed := speedFactor m * s,
            groundY := js_round (of_int H - max 36 ((8 / 100) * of_int H)),
            skyColor := modeSky m \<rparr>)"

text \<open>The initial value of \<open>worldRef\<close> (lines 56 to 66).\<close>

definition world0 :: world where
  "world0 = \<lparr> world_t = 0, gravity = 1 / 2, flapImpulse = - 9, pipeGap = 140, pipeWidth = 70,
              pipeSpacing = 300, speed = 3, groundY = 440, skyColor = ''#87CEEB'' \<rparr>"

text \<open>
  The scaling law in the words of the specification, section 4.1, with no rounding.
\<close>

record spec_profile =
  sp_gravity :: real
  sp_flapImpulse :: real
  sp_gapHeight :: real
  sp_obstacleWidth :: real
  sp_spacing :: real
  sp_scrollSpeed :: real
  sp_groundLine :: real

definition spec_compute :: "mode \<Rightarrow> int \<Rightarrow> int \<Rightarrow> spec_profile" where
  "spec_compute m W H =
     (let s = of_int H / 480
      in \<lparr> sp_gravity = (1 / 2) * s,
           sp_flapImpulse = - 9 * s,
           sp_gapHeight = max (120 * s) ((28 / 100) * of_int H)
              * (case m of Easy \<Rightarrow> 135 / 100 | Normal \<Rightarrow> 1 | Hard \<Rightarrow> 85 / 100),
           sp_obstacleWidth = max 54 ((6 / 100) * of_int W),
           sp_spacing = max 260 ((32 / 100) * of_int W),
           sp_scrollSpeed = (case m of Easy \<Rightarrow> 24 / 10 | Normal \<Rightarrow> 3 | Hard \<Rightarrow> 34 / 10) * s,
           sp_groundLine = of_int H - max 36 ((8 / 100) * of_int H) \<rparr>)"

subsection \<open>Obstacle factory (lines 134 to 165)\<close>

text \<open>
  \<open>makePipeAtX(x)\<close> reads \<open>worldRef.current\<close> and \<open>displaySize.h\<close>; here they are the
  arguments \<open>w\<close> and \<open>H\<close>, \<open>u\<close> is the random number drawn and \<open>i\<close> the identity of the
  new object.
\<close>

definition makePipeAtX :: "world \<Rightarrow> int \<Rightarrow> real \<Rightarrow> nat \<Rightarrow> real \<Rightarrow> pipe" where
  "makePipeAtX w H u i x =
     (let marginTop = js_round ((6 / 100) * of_int H);
          marginBottom = js_round ((6 / 100) * of_int H);
          maxTopAllowed = groundY w - marginBottom - pipeGap w;
          minTopAllowed = marginTop;
          minTop = max 0 (min minTopAllowed maxTopAllowed);
          maxTop = max minTop maxTopAllowed
      in \<lparr> pipe_id = i, pipe_x = x, topH = randRange minTop maxTop u \<rparr>)"

definition generateInitialPipes :: "(nat \<Rightarrow> real) \<Rightarrow> world \<Rightarrow> int \<Rightarrow> int \<Rightarrow> nat \<Rightarrow> nat \<Rightarrow> pipe list" where
  "generateInitialPipes rnd w W H n d =
     (let spacing = pipeSpacing w;
          startX = W + js_round (of_int spacing * (6 / 10))
      in map (\<lambda>i. makePipeAtX w H (rnd (d + i)) (n + i) (of_int (startX + int i * spacing)))
           [0 ..< 6])"

subsection \<open>The closure of the animation loop (lines 286 to 297)\<close>

text \<open>
  The loop effect runs after a render whose \<open>running\<close> or \<open>paused\<close> differs from that of
  the render before; the loop then calls the \<open>update\<close> of this render, which holds its
  \<open>best\<close> and its \<open>displaySize\<close>. \<open>rerender old new\<close> is the render that follows a step
  from the rendered state \<open>old\<close> to the state \<open>new\<close>.
\<close>

definition installLoop :: "game \<Rightarrow> game" where
  "installLoop st = st\<lparr> loopBest := best st, loopW := displayW st, loopH := displayH st \<rparr>"

definition rerender :: "game \<Rightarrow> game \<Rightarrow> game" where
  "rerender old new =
     (if running new = running old \<and> paused new = paused old then new else installLoop new)"

subsection \<open>Reset, end of game, pause, flap (lines 167 to 232, 380 to 391)\<close>

text \<open>
  \<open>resetGame\<close> (lines 167 to 181) in a render whose \<open>displaySize\<close> is \<open>W\<close> by \<open>H\<close>, and
  in the current render.
\<close>

definition resetGameAt :: "int \<Rightarrow> int \<Rightarrow> (nat \<Rightarrow> real) \<Rightarrow> game \<Rightarrow> game" where
  "resetGameAt W H rnd st =
     st\<lparr> birdRef := \<lparr> bird_x = js_round (of_int W * (18 / 100)),
                      bird_y = of_int (js_round (of_int H * (5 / 10))),
                      bird_vy = 0,
                      bird_r = bird_r (birdRef st),
                      wingAngle = 0 \<rparr>,
         pipesRef := generateInitialPipes rnd (worldRef st) W H (nextId st) (draws st),
         nextId := nextId st + 6,
         draws := draws st + 6,
         scoredSetRef := [],
         gameOverRef := False,
         score := 0,
         scoreRef := 0 \<rparr>"

definition resetGame :: "(nat \<Rightarrow> real) \<Rightarrow> game \<Rightarrow> game" where
  "resetGame rnd st = resetGameAt (displayW st) (displayH st) rnd st"

definition endGame :: "game \<Rightarrow> game" where
  "endGame st =
     (if \<not> gameOverRef st
      then rerender st
             (st\<lparr> gameOverRef := True, paused := True, sounds := sounds st @ [SfxGameOver] \<rparr>)
      else st)"

definition togglePause :: "game \<Rightarrow> game" where
  "togglePause st =
     (if \<not> running st then st else rerender st (st\<lparr> paused := \<not> paused st \<rparr>))"

definition flap :: "(nat \<Rightarrow> real) \<Rightarrow> game \<Rightarrow> game" where
  "flap rnd st =
     (if \<not> running st
        then rerender st (resetGame rnd (st\<lparr> running := True, paused := False \<rparr>))
      else if gameOverRef st then rerender st (resetGame rnd (st\<lparr> paused := False \<rparr>))
      else if \<not> paused st
        then st\<lparr> birdRef := (birdRef st)\<lparr> bird_vy := flapImpulse (worldRef st),
                                          wingAngle := - (8 / 10) \<rparr>,
                 sounds := sounds st @ [SfxFlap] \<rparr>
      else st)"

text \<open>
  The Restart button (lines 632 to 637): \<open>setRunning(true); setPaused(false); resetGame()\<close>.
\<close>

definition restart :: "(nat \<Rightarrow> real) \<Rightarrow> game \<Rightarrow> game" where
  "restart rnd st = rerender st (resetGame rnd (st\<lparr> running := True, paused := False \<rparr>))"

text \<open>
  The body of the effect that runs when the size or the mode changes (lines 87 to 131):
  it recomputes the profile, places the bird, and restarts the session; the state it is
  applied to holds the new size and mode, which are those of the render the effect
  belongs to.
\<close>

definition sizeAndModeEffect :: "(nat \<Rightarrow> real) \<Rightarrow> game \<Rightarrow> game" where
  "sizeAndModeEffect rnd st =
     (let W = displayW st; H = displayH st; s = of_int H / 480;
          w = computeProfile (mode st) W H (worldRef st)
      in st\<lparr> worldRef := w,
              birdRef := \<lparr> bird_x = js_round (of_int W * (18 / 100)),
                           bird_y = of_int (js_round (of_int H * (5 / 10))),
                           bird_vy = 0,
                           bird_r = max 14 (js_round (16 * s)),
                           wingAngle = 0 \<rparr>,
              pipesRef := generateInitialPipes rnd w W H (nextId st) (draws st),
              nextId := nextId st + 6,
              draws := draws st + 6,
              scoredSetRef := [],
              gameOverRef := False,
              score := 0,
              scoreRef := 0,
              running := True,
              paused := False \<rparr>)"

text \<open>
  A change of the size or the mode after the mount: the effect runs in the render that
  has the new size or mode, and its setters of \<open>running\<close> and \<open>paused\<close> take effect in
  the render after it.
\<close>

definition applySizeAndMode :: "(nat \<Rightarrow> real) \<Rightarrow> game \<Rightarrow> game" where
  "applySizeAndMode rnd st = rerender st (sizeAndModeEffect rnd st)"

text \<open>The \<open>useState\<close> initialiser of \<open>best\<close> (lines 42 to 47), given the stored value.\<close>

definition initBest :: "int option \<Rightarrow> int" where
  "initBest stored = (case stored of None \<Rightarrow> 0 | Some v \<Rightarrow> v)"

text \<open>
  The state of the first render (lines 34 to 66), given the stored value, and the mount,
  given also the width of the window. The effects of the first render run in the order of
  the source: the resize effect sets the size that \<open>recomputeSize\<close> gives, the size and
  mode effect runs on the initial size 960 by 480, and the loop effect starts no loop,
  since \<open>running\<close> is false. The second render has the new size and \<open>running\<close> true: its
  size and mode effect runs again if the size has changed, and its loop effect installs
  the loop.
\<close>

definition initial :: "int option \<Rightarrow> game" where
  "initial stored =
     \<lparr> displayW = 960, displayH = 480, running = False, paused = False, mode = Normal,
       score = 0, scoreRef = 0, best = initBest stored, loopBest = initBest stored,
       loopW = 960, loopH = 480,
       birdRef = \<lparr> bird_x = 160, bird_y = 240, bird_vy = 0, bird_r = 16, wingAngle = 0 \<rparr>,
       pipesRef = [], gameOverRef = False, scoredSetRef = [], worldRef = world0,
       nextId = 0, draws = 0, storage = stored, writes = [], sounds = [] \<rparr>"

definition mount :: "(nat \<Rightarrow> real) \<Rightarrow> real \<Rightarrow> int option \<Rightarrow> game" where
  "mount rnd iw stored =
     (let st1 = sizeAndModeEffect rnd (initial stored);
          W = fst (recomputeSize iw);
          H = snd (recomputeSize iw);
          st2 = st1\<lparr> displayW := W, displayH := H \<rparr>
      in installLoop (if W = 960 \<and> H = 480 then st2 else sizeAndModeEffect rnd st2))"

subsection \<open>The tick (lines 300 to 378)\<close>

text \<open>Lines 307 to 312: velocity first, then position, then the wing.\<close>

definition physics :: "game \<Rightarrow> game" where
  "physics st =
     (let b = birdRef st; w = worldRef st;
          vy1 = bird_vy b + gravity w;
          y1 = bird_y b + vy1
      in st\<lparr> birdRef := b\<lparr> bird_vy := vy1, bird_y := y1,
                            wingAngle := (if wingAngle b < 0 then min (wingAngle b + 2 / 10) 0
                                          else wingAngle b) \<rparr> \<rparr>)"

text \<open>Lines 314 to 318.\<close>

definition movePipes :: "game \<Rightarrow> game" where
  "movePipes st =
     st\<lparr> pipesRef := map (\<lambda>p. p\<lparr> pipe_x := pipe_x p - speed (worldRef st) \<rparr>) (pipesRef st) \<rparr>"

text \<open>
  Lines 320 to 325, the recycling loop. After \<open>pipes.shift()\<close> the code reads
  \<open>pipes[pipes.length - 1].x\<close>: on an array that the shift emptied this is a property
  read on \<open>undefined\<close>, which throws a \<open>TypeError\<close>. The loop has no bound of its own, so
  the result is an option: \<open>None\<close> is a loop that never ends. The \<open>makePipeAtX\<close> that the
  loop calls is the one of its own render and reads that render's \<open>displaySize.h\<close>.
\<close>

partial_function (option) recycle :: "(nat \<Rightarrow> real) \<Rightarrow> game \<Rightarrow> (error + game) option" where
  "recycle rnd st =
     (case pipesRef st of
        [] \<Rightarrow> Some (Inr st)
      | p # rest \<Rightarrow>
          if pipe_x p + of_int (pipeWidth (worldRef st)) < - 10
          then (case rest of
                  [] \<Rightarrow> Some (Inl TypeError)
                | q # qs \<Rightarrow>
                    recycle rnd
                      (st\<lparr> pipesRef := rest @ [makePipeAtX (worldRef st) (loopH st)
                                (rnd (draws st)) (nextId st)
                                (pipe_x (last rest) + of_int (pipeSpacing (worldRef st)))],
                           nextId := Suc (nextId st),
                           draws := Suc (draws st) \<rparr>))
          else Some (Inr st))"

declare recycle.simps [code]

text \<open>Lines 327 to 330, with the \<open>W\<close> of line 305 and the factory of the loop's render.\<close>

definition spawnIfEmpty :: "(nat \<Rightarrow> real) \<Rightarrow> game \<Rightarrow> game" where
  "spawnIfEmpty rnd st =
     (if pipesRef st = []
      then st\<lparr> pipesRef := generateInitialPipes rnd (worldRef st) (loopW st) (loopH st)
                              (nextId st) (draws st),
               nextId := nextId st + 6,
               draws := draws st + 6 \<rparr>
      else st)"

text \<open>
  Lines 362 to 373: the pipe is added to the set and the updater of \<open>setScore\<close> runs.
  The \<open>best\<close> of line 367 is the variable of the render that installed the loop.
\<close>

definition credit :: "pipe \<Rightarrow> game \<Rightarrow> game" where
  "credit p st =
     (let next = score st + 1;
          st1 = st\<lparr> scoredSetRef := scoredSetRef st @ [pipe_id p],
                    score := next, scoreRef := next \<rparr>;
          st2 = (if next > loopBest st
                 then st1\<lparr> best := next, storage := Some next, writes := writes st1 @ [next] \<rparr>
                 else st1)
      in st2\<lparr> sounds := sounds st2 @ [SfxScore] \<rparr>)"

text \<open>
  Lines 344 to 375, the loop over the pipes. The flag of the result says whether the
  loop left \<open>update\<close> through the \<open>return\<close> of line 356.
\<close>

fun pipeLoop :: "pipe list \<Rightarrow> game \<Rightarrow> bool \<times> game" where
  "pipeLoop [] st = (False, st)"
| "pipeLoop (p # ps) st =
     (let b = birdRef st; w = worldRef st;
          gapTop = topH p;
          gapBottom = topH p + pipeGap w;
          pipeLeft = pipe_x p;
          pipeRight = pipe_x p + of_int (pipeWidth w);
          inX = (of_int (bird_x b + bird_r b) > pipeLeft \<and> of_int (bird_x b - bird_r b) < pipeRight)
      in if inX \<and> (bird_y b - of_int (bird_r b) < of_int gapTop
                  \<or> bird_y b + of_int (bird_r b) > of_int gapBottom)
         then (True, endGame st)
         else pipeLoop ps
                (if pipe_x p + of_int (pipeWidth w) / 2 < of_int (bird_x b)
                    \<and> pipe_id p \<notin> set (scoredSetRef st)
                 then credit p st else st))"

text \<open>Lines 332 to 377: ground, ceiling, pipes, and the tick counter.\<close>

definition collide :: "game \<Rightarrow> game" where
  "collide st =
     (let b = birdRef st; w = worldRef st
      in if bird_y b + of_int (bird_r b) > of_int (groundY w)
         then endGame (st\<lparr> birdRef := b\<lparr> bird_y := of_int (groundY w - bird_r b) \<rparr> \<rparr>)
         else
           (let st1 = (if bird_y b - of_int (bird_r b) < 0
                       then st\<lparr> birdRef := b\<lparr> bird_y := of_int (bird_r b), bird_vy := 0 \<rparr> \<rparr>
                       else st)
            in case pipeLoop (pipesRef st1) st1 of
                 (True, st2) \<Rightarrow> st2
               | (False, st2) \<Rightarrow>
                   st2\<lparr> worldRef := (worldRef st2)\<lparr> world_t := world_t (worldRef st2) + 1 \<rparr> \<rparr>))"

definition update :: "(nat \<Rightarrow> real) \<Rightarrow> game \<Rightarrow> (error + game) option" where
  "update rnd st =
     (if \<not> running st \<or> paused st then Some (Inr st)
      else case recycle rnd (movePipes (physics st)) of
             None \<Rightarrow> None
           | Some (Inl e) \<Rightarrow> Some (Inl e)
           | Some (Inr st1) \<Rightarrow> Some (Inr (collide (spawnIfEmpty rnd st1))))"

subsection \<open>Predicates and measures used in the proofs\<close>

text \<open>A pipe whose right edge is past the threshold of line 321.\<close>

definition offScreen :: "world \<Rightarrow> pipe \<Rightarrow> bool" where
  "offScreen w p = (pipe_x p + of_int (pipeWidth w) < - 10)"

text \<open>
  The variant of the recycling loop: the number of spacings the last pipe is short of the
  threshold, plus the number of leading pipes past it.
\<close>

definition recycleMeasure :: "game \<Rightarrow> nat" where
  "recycleMeasure st =
     (case pipesRef st of
        [] \<Rightarrow> 0
      | p # ps \<Rightarrow>
          nat \<lceil>(- 10 - of_int (pipeWidth (worldRef st)) - pipe_x (last (p # ps)))
                 / of_int (pipeSpacing (worldRef st))\<rceil>
          + length (takeWhile (offScreen (worldRef st)) (p # ps)))"


subsection \<open>The loop over the pipes, in terms of two tests\<close>




subsection \<open>Object identity\<close>




subsection \<open>The animation loop\<close>

text \<open>
  Lines 286 to 297: while the session is running and not paused, every animation frame
  calls \<open>update\<close>. \<open>frames rnd n\<close> is \<open>n\<close> frames with no input between them, and
  \<open>flapEvery rnd n k\<close> is \<open>k\<close> rounds of one flap followed by \<open>n\<close> frames.
\<close>

fun frames :: "(nat \<Rightarrow> real) \<Rightarrow> nat \<Rightarrow> game \<Rightarrow> (error + game) option" where
  "frames rnd 0 st = Some (Inr st)"
| "frames rnd (Suc n) st =
     (case update rnd st of Some (Inr st') \<Rightarrow> frames rnd n st' | r \<Rightarrow> r)"

fun flapEvery :: "(nat \<Rightarrow> real) \<Rightarrow> nat \<Rightarrow> nat \<Rightarrow> game \<Rightarrow> (error + game) option" where
  "flapEvery rnd n 0 st = Some (Inr st)"
| "flapEvery rnd n (Suc k) st =
     (case frames rnd n (flap rnd st) of Some (Inr st') \<Rightarrow> flapEvery rnd n k st' | r \<Rightarrow> r)"

text \<open>
  Frames in which nothing happens but the flight. \<open>fall\<close> is the integration step of lines
  307 to 312 on the bird alone and \<open>glide\<close> its iteration; \<open>inAir\<close> says that in each of
  the next \<open>n\<close> frames the bird is neither on the ground nor at the ceiling, \<open>ahead\<close> that
  every pipe is still to the right of the bird after \<open>n\<close> frames. \<open>coast n\<close> is the state
  that \<open>n\<close> such frames lead to: the bird has moved by \<open>glide\<close>, the pipes have moved to
  the left, and the tick counter has advanced.
\<close>

definition fall :: "real \<Rightarrow> bird \<Rightarrow> bird" where
  "fall g b =
     b\<lparr> bird_vy := bird_vy b + g, bird_y := bird_y b + (bird_vy b + g),
        wingAngle := (if wingAngle b < 0 then min (wingAngle b + 2 / 10) 0 else wingAngle b) \<rparr>"

fun glide :: "real \<Rightarrow> nat \<Rightarrow> bird \<Rightarrow> bird" where
  "glide g 0 b = b"
| "glide g (Suc n) b = glide g n (fall g b)"

fun inAir :: "real \<Rightarrow> int \<Rightarrow> nat \<Rightarrow> bird \<Rightarrow> bool" where
  "inAir g gy 0 b = True"
| "inAir g gy (Suc n) b =
     (\<not> bird_y (fall g b) + of_int (bird_r b) > of_int gy
      \<and> \<not> bird_y (fall g b) - of_int (bird_r b) < 0
      \<and> inAir g gy n (fall g b))"

definition ahead :: "nat \<Rightarrow> game \<Rightarrow> bool" where
  "ahead n st =
     (pipesRef st \<noteq> [] \<and> 0 \<le> speed (worldRef st) \<and> 0 \<le> pipeWidth (worldRef st)
      \<and> 0 \<le> bird_r (birdRef st) \<and> 0 \<le> bird_x (birdRef st)
      \<and> list_all (\<lambda>p. of_int (bird_x (birdRef st) + bird_r (birdRef st))
                           \<le> pipe_x p - of_nat n * speed (worldRef st)) (pipesRef st))"

definition coast :: "nat \<Rightarrow> game \<Rightarrow> game" where
  "coast n st =
     st\<lparr> birdRef := glide (gravity (worldRef st)) n (birdRef st),
         pipesRef := map (\<lambda>p. p\<lparr> pipe_x := pipe_x p - of_nat n * speed (worldRef st) \<rparr>) (pipesRef st),
         worldRef := (worldRef st)\<lparr> world_t := world_t (worldRef st) + int n \<rparr> \<rparr>"

subsection \<open>Concrete states\<close>

text \<open>A generator that always returns \<open>0.4\<close>.\<close>

definition rnd0 :: "nat \<Rightarrow> real" where
  "rnd0 k = 2 / 5"

text \<open>
  The refs and the state as the component declares them (lines 34 to 66), with nothing
  stored.
\<close>

definition stMount :: game where
  "stMount =
     \<lparr> displayW = 960, displayH = 480, running = False, paused = False, mode = Normal,
       score = 0, scoreRef = 0, best = 0, loopBest = 0, loopW = 960, loopH = 480,
       birdRef = \<lparr> bird_x = 160, bird_y = 240, bird_vy = 0, bird_r = 16, wingAngle = 0 \<rparr>,
       pipesRef = [], gameOverRef = False, scoredSetRef = [], worldRef = world0,
       nextId = 0, draws = 0, storage = None, writes = [], sounds = [] \<rparr>"

text \<open>The session that the size and mode effect seeds at 960 by 480 in normal mode.\<close>

definition worldNormal :: world where
  "worldNormal =
     \<lparr> world_t = 0, gravity = 1 / 2, flapImpulse = - 9, pipeGap = 134, pipeWidth = 58,
       pipeSpacing = 307, speed = 3, groundY = 442, skyColor = ''#87CEEB'' \<rparr>"

definition pipesSeeded :: "pipe list" where
  "pipesSeeded =
     [\<lparr> pipe_id = 0, pipe_x = 1144, topH = 129 \<rparr>, \<lparr> pipe_id = 1, pipe_x = 1451, topH = 129 \<rparr>,
      \<lparr> pipe_id = 2, pipe_x = 1758, topH = 129 \<rparr>, \<lparr> pipe_id = 3, pipe_x = 2065, topH = 129 \<rparr>,
      \<lparr> pipe_id = 4, pipe_x = 2372, topH = 129 \<rparr>, \<lparr> pipe_id = 5, pipe_x = 2679, topH = 129 \<rparr>]"

definition stSeeded :: game where
  "stSeeded =
     \<lparr> displayW = 960, displayH = 480, running = True, paused = False, mode = Normal,
       score = 0, scoreRef = 0, best = 0, loopBest = 0, loopW = 960, loopH = 480,
       birdRef = \<lparr> bird_x = 173, bird_y = 240, bird_vy = 0, bird_r = 16, wingAngle = 0 \<rparr>,
       pipesRef = pipesSeeded, gameOverRef = False, scoredSetRef = [], worldRef = worldNormal,
       nextId = 6, draws = 6, storage = None, writes = [], sounds = [] \<rparr>"

text \<open>The same session paused by the player.\<close>

definition stPausedMid :: game where
  "stPausedMid = stSeeded\<lparr> paused := True \<rparr>"

text \<open>
  The seeded session after 26 ticks without a flap, the tick after it (the bird reaches
  the ground and the game ends), and that state once the player has pressed the pause key.
\<close>

definition stFalling :: game where
  "stFalling =
     stSeeded\<lparr> birdRef := \<lparr> bird_x = 173, bird_y = 831 / 2, bird_vy = 13, bird_r = 16,
                             wingAngle = 0 \<rparr>,
               pipesRef := map (\<lambda>p. p\<lparr> pipe_x := pipe_x p - 78 \<rparr>) pipesSeeded,
               worldRef := worldNormal\<lparr> world_t := 26 \<rparr> \<rparr>"

definition stLanded :: game where
  "stLanded =
     stSeeded\<lparr> birdRef := \<lparr> bird_x = 173, bird_y = 426, bird_vy = 27 / 2, bird_r = 16,
                             wingAngle = 0 \<rparr>,
               pipesRef := map (\<lambda>p. p\<lparr> pipe_x := pipe_x p - 81 \<rparr>) pipesSeeded,
               worldRef := worldNormal\<lparr> world_t := 26 \<rparr>,
               gameOverRef := True, paused := True, sounds := [SfxGameOver] \<rparr>"

definition stTerminal :: game where
  "stTerminal = stLanded\<lparr> paused := False \<rparr>"


text \<open>
  A running session on the initial \<open>worldRef\<close> (ground line 440, radius 16) whose bird
  is at \<open>y = 432\<close> after the integration step.
\<close>

definition stNearGround :: game where
  "stNearGround =
     stSeeded\<lparr> worldRef := world0,
               birdRef := \<lparr> bird_x = 160, bird_y = 422, bird_vy = 19 / 2, bird_r = 16,
                             wingAngle = 0 \<rparr> \<rparr>"

text \<open>
  The seeded session played with a flap every 35 frames (the bird then moves between
  \<open>y = 163.5\<close> and \<open>y = 240\<close>, inside every gap at \<open>topH = 129\<close>): after 9 rounds, after
  13 rounds, after 12 rounds, and at frame 435, one frame before the centre of the second
  pipe passes.
\<close>

definition stNine :: game where
  "stNine =
     stSeeded\<lparr> birdRef := \<lparr> bird_x = 173, bird_y = 240, bird_vy = 17 / 2, bird_r = 16,
                             wingAngle = 0 \<rparr>,
               pipesRef := map (\<lambda>p. p\<lparr> pipe_x := pipe_x p - 945 \<rparr>) pipesSeeded,
               worldRef := worldNormal\<lparr> world_t := 315 \<rparr>,
               sounds := [SfxFlap, SfxFlap, SfxFlap, SfxFlap, SfxFlap, SfxFlap, SfxFlap, SfxFlap,
                          SfxFlap] \<rparr>"

definition stThirteen :: game where
  "stThirteen =
     stSeeded\<lparr> birdRef := \<lparr> bird_x = 173, bird_y = 240, bird_vy = 17 / 2, bird_r = 16,
                             wingAngle = 0 \<rparr>,
               pipesRef := [\<lparr> pipe_id = 1, pipe_x = 86, topH = 129 \<rparr>,
                            \<lparr> pipe_id = 2, pipe_x = 393, topH = 129 \<rparr>,
                            \<lparr> pipe_id = 3, pipe_x = 700, topH = 129 \<rparr>,
                            \<lparr> pipe_id = 4, pipe_x = 1007, topH = 129 \<rparr>,
                            \<lparr> pipe_id = 5, pipe_x = 1314, topH = 129 \<rparr>,
                            \<lparr> pipe_id = 6, pipe_x = 1621, topH = 129 \<rparr>],
               worldRef := worldNormal\<lparr> world_t := 455 \<rparr>,
               nextId := 7, draws := 7,
               score := 2, scoreRef := 2, best := 2, scoredSetRef := [0, 1],
               storage := Some 2, writes := [1, 2],
               sounds := [SfxFlap, SfxFlap, SfxFlap, SfxFlap, SfxFlap, SfxFlap, SfxFlap, SfxFlap,
                          SfxFlap, SfxFlap, SfxScore, SfxFlap, SfxFlap, SfxFlap, SfxScore] \<rparr>"



text \<open>
  Frame 333 of that session, one frame before the centre of the first pipe passes the
  bird, and the frame after it, on two continuations of \<open>stNine\<close>: a flap and 18 frames,
  which keep the bird inside the gap (\<open>stPassing\<close>, \<open>stPassed\<close>); and a flap, 16
  frames, a second flap and 2 frames, which take the bird above the gap in frame 334
  (\<open>stCrossing\<close>, \<open>stCrashed\<close>).
\<close>

definition stPassing :: game where
  "stPassing =
     stNine\<lparr> birdRef := \<lparr> bird_x = 173, bird_y = 327 / 2, bird_vy = 0, bird_r = 16,
                           wingAngle = 0 \<rparr>,
             pipesRef := map (\<lambda>p. p\<lparr> pipe_x := pipe_x p - 999 \<rparr>) pipesSeeded,
             worldRef := worldNormal\<lparr> world_t := 333 \<rparr>,
             sounds := sounds stNine @ [SfxFlap] \<rparr>"


definition stCrossing :: game where
  "stCrossing =
     stNine\<lparr> birdRef := \<lparr> bird_x = 173, bird_y = 295 / 2, bird_vy = - 8, bird_r = 16,
                           wingAngle = - (4 / 10) \<rparr>,
             pipesRef := map (\<lambda>p. p\<lparr> pipe_x := pipe_x p - 999 \<rparr>) pipesSeeded,
             worldRef := worldNormal\<lparr> world_t := 333 \<rparr>,
             sounds := sounds stNine @ [SfxFlap, SfxFlap] \<rparr>"


text \<open>
  The same session restarted with the Restart button at frame 455, while it runs, and
  played in the same way: right after the restart, after nine rounds, at the frame
  before the centre of the first pipe passes, and at the frame after it.
\<close>

definition stRestarted :: game where
  "stRestarted =
     stThirteen\<lparr> birdRef := \<lparr> bird_x = 173, bird_y = 240, bird_vy = 0, bird_r = 16,
                                wingAngle = 0 \<rparr>,
                  pipesRef := map (\<lambda>p. p\<lparr> pipe_id := pipe_id p + 7 \<rparr>) pipesSeeded,
                  nextId := 13, draws := 13, scoredSetRef := [], score := 0, scoreRef := 0 \<rparr>"

definition stNineAgain :: game where
  "stNineAgain =
     stRestarted\<lparr> birdRef := \<lparr> bird_x = 173, bird_y = 240, bird_vy = 17 / 2, bird_r = 16,
                                 wingAngle = 0 \<rparr>,
                   pipesRef := map (\<lambda>p. p\<lparr> pipe_x := pipe_x p - 945 \<rparr>) (pipesRef stRestarted),
                   worldRef := worldNormal\<lparr> world_t := 770 \<rparr>,
                   sounds := sounds stRestarted
                      @ [SfxFlap, SfxFlap, SfxFlap, SfxFlap, SfxFlap, SfxFlap, SfxFlap, SfxFlap,
                         SfxFlap] \<rparr>"

definition stPassingAgain :: game where
  "stPassingAgain =
     stNineAgain\<lparr> birdRef := \<lparr> bird_x = 173, bird_y = 327 / 2, bird_vy = 0, bird_r = 16,
                                 wingAngle = 0 \<rparr>,
                   pipesRef := map (\<lambda>p. p\<lparr> pipe_x := pipe_x p - 999 \<rparr>) (pipesRef stRestarted),
                   worldRef := worldNormal\<lparr> world_t := 788 \<rparr>,
                   sounds := sounds stNineAgain @ [SfxFlap] \<rparr>"

definition stLowered :: game where
  "stLowered =
     stPassingAgain\<lparr> birdRef := \<lparr> bird_x = 173, bird_y = 164, bird_vy = 1 / 2, bird_r = 16,
                                    wingAngle = 0 \<rparr>,
                      pipesRef := map (\<lambda>p. p\<lparr> pipe_x := pipe_x p - 1002 \<rparr>) (pipesRef stRestarted),
                      worldRef := worldNormal\<lparr> world_t := 789 \<rparr>,
                      score := 1, scoreRef := 1, best := 1, scoredSetRef := [7],
                      storage := Some 1, writes := [1, 2, 1],
                      sounds := sounds stPassingAgain @ [SfxScore] \<rparr>"

section \<open>Properties of the model\<close>

subsection \<open>The render after a step\<close>

text \<open>A render changes nothing but the three values the loop holds.\<close>

lemma rerender_frame [simp]:
  "displayW (rerender old new) = displayW new" "displayH (rerender old new) = displayH new"
  "running (rerender old new) = running new" "paused (rerender old new) = paused new"
  "mode (rerender old new) = mode new" "score (rerender old new) = score new"
  "scoreRef (rerender old new) = scoreRef new" "best (rerender old new) = best new"
  "birdRef (rerender old new) = birdRef new" "pipesRef (rerender old new) = pipesRef new"
  "gameOverRef (rerender old new) = gameOverRef new"
  "scoredSetRef (rerender old new) = scoredSetRef new" "worldRef (rerender old new) = worldRef new"
  "nextId (rerender old new) = nextId new" "draws (rerender old new) = draws new"
  "storage (rerender old new) = storage new" "writes (rerender old new) = writes new"
  "sounds (rerender old new) = sounds new"
  by (simp_all add: rerender_def installLoop_def)

lemma rerender_loop:
  "loopBest (rerender old new)
     = (if running new = running old \<and> paused new = paused old then loopBest new else best new)"
  "loopW (rerender old new)
     = (if running new = running old \<and> paused new = paused old then loopW new else displayW new)"
  "loopH (rerender old new)
     = (if running new = running old \<and> paused new = paused old then loopH new else displayH new)"
  by (simp_all add: rerender_def installLoop_def)

subsection \<open>Rounding and the random range\<close>

lemma js_round_mono: "a \<le> b \<Longrightarrow> js_round a \<le> js_round b"
  by (simp add: js_round_def floor_mono)

lemma js_round_of_int: "js_round (of_int k) = k"
  unfolding js_round_def by linarith

lemma js_round_max: "js_round (max a b) = max (js_round a) (js_round b)"
  by (simp add: max_def js_round_mono) (meson js_round_mono order.antisym linear)

lemma js_round_near: "\<bar>of_int (js_round v) - v\<bar> \<le> 1 / 2"
  unfolding js_round_def by linarith

text \<open>The display is between 400 and 1440 wide and between 200 and 720 high.\<close>

lemma recomputeSize_bounds:
  "400 \<le> fst (recomputeSize iw) \<and> fst (recomputeSize iw) \<le> 1440
   \<and> 200 \<le> snd (recomputeSize iw) \<and> snd (recomputeSize iw) \<le> 720"
proof -
  let ?vw = "max 400 (min 1440 (iw - 32))"
  have "js_round 400 \<le> js_round ?vw" "js_round ?vw \<le> js_round 1440"
    by (intro js_round_mono; simp)+
  then have w: "400 \<le> js_round ?vw" "js_round ?vw \<le> 1440" by (simp_all add: js_round_def)
  have "js_round 200 \<le> js_round (of_int (js_round ?vw) / 2)"
    "js_round (of_int (js_round ?vw) / 2) \<le> js_round 720"
    using w by (intro js_round_mono; simp)+
  then have "200 \<le> js_round (of_int (js_round ?vw) / 2)" "js_round (of_int (js_round ?vw) / 2) \<le> 720"
    by (simp_all add: js_round_def)
  then show ?thesis using w by (simp add: recomputeSize_def Let_def)
qed

lemma randRange_bounds:
  assumes "0 \<le> u" "u < 1" "mn \<le> mx"
  shows "mn \<le> randRange mn mx u \<and> randRange mn mx u \<le> mx"
proof -
  let ?n = "mx - mn + 1"
  have n: "0 < (of_int ?n :: real)" using assms by simp
  have lo: "0 \<le> u * of_int ?n" using assms n by simp
  have hi: "u * of_int ?n < of_int ?n" using assms n by simp
  have "0 \<le> \<lfloor>u * of_int ?n\<rfloor>" using lo by simp
  moreover have "\<lfloor>u * of_int ?n\<rfloor> < ?n" using hi floor_less_iff by blast
  ultimately show ?thesis by (simp add: randRange_def)
qed

lemma makePipeAtX_sel [simp]:
  "pipe_x (makePipeAtX w H u i x) = x" "pipe_id (makePipeAtX w H u i x) = i"
  by (simp_all add: makePipeAtX_def Let_def)

text \<open>
  Rounding a value, scaling it by a factor \<open>f\<close> and rounding again stays within
  \<open>1/2 + f/2\<close> of the scaled value.
\<close>

lemma gap_near:
  fixes a b f :: real
  assumes "0 \<le> f"
  shows "\<bar>real_of_int (js_round (max a (of_int (js_round b)) * f)) - max a b * f\<bar> \<le> 1 / 2 + f / 2"
proof -
  have r: "\<bar>real_of_int (js_round b) - b\<bar> \<le> 1 / 2" by (rule js_round_near)
  then have "\<bar>max a (of_int (js_round b)) - max a b\<bar> \<le> 1 / 2" by linarith
  then have "\<bar>max a (of_int (js_round b)) - max a b\<bar> * f \<le> (1 / 2) * f"
    using assms by (rule mult_right_mono)
  moreover have "\<bar>max a (of_int (js_round b)) * f - max a b * f\<bar>
      = \<bar>max a (of_int (js_round b)) - max a b\<bar> * f"
    using assms by (simp only: left_diff_distrib[symmetric] abs_mult abs_of_nonneg)
  ultimately have m: "\<bar>max a (of_int (js_round b)) * f - max a b * f\<bar> \<le> f / 2"
    by simp
  have "\<bar>real_of_int (js_round (max a (of_int (js_round b)) * f)) - max a (of_int (js_round b)) * f\<bar> \<le> 1 / 2"
    by (rule js_round_near)
  with m show ?thesis by linarith
qed

subsection \<open>The profile\<close>

lemma profile_fields:
  "gravity (computeProfile m W H w) = (1 / 2) * (of_int H / 480)"
  "flapImpulse (computeProfile m W H w) = - 9 * (of_int H / 480)"
  "speed (computeProfile m W H w) = speedFactor m * (of_int H / 480)"
  "pipeWidth (computeProfile m W H w) = max 54 (js_round (of_int W * (6 / 100)))"
  "pipeSpacing (computeProfile m W H w) = max 260 (js_round (of_int W * (32 / 100)))"
  "groundY (computeProfile m W H w) = js_round (of_int H - max 36 ((8 / 100) * of_int H))"
  "pipeGap (computeProfile m W H w)
     = js_round (max (120 * (of_int H / 480)) (of_int (js_round (of_int H * (28 / 100)))) * gapFactor m)"
  unfolding computeProfile_def Let_def by simp_all

lemma spec_fields:
  "sp_gravity (spec_compute m W H) = (1 / 2) * (of_int H / 480)"
  "sp_flapImpulse (spec_compute m W H) = - 9 * (of_int H / 480)"
  "sp_scrollSpeed (spec_compute m W H) = (case m of Easy \<Rightarrow> 24 / 10 | Normal \<Rightarrow> 3 | Hard \<Rightarrow> 34 / 10) * (of_int H / 480)"
  "sp_obstacleWidth (spec_compute m W H) = max 54 ((6 / 100) * of_int W)"
  "sp_spacing (spec_compute m W H) = max 260 ((32 / 100) * of_int W)"
  "sp_groundLine (spec_compute m W H) = of_int H - max 36 ((8 / 100) * of_int H)"
  "sp_gapHeight (spec_compute m W H) = max (120 * (of_int H / 480)) ((28 / 100) * of_int H)
              * (case m of Easy \<Rightarrow> 135 / 100 | Normal \<Rightarrow> 1 | Hard \<Rightarrow> 85 / 100)"
  unfolding spec_compute_def Let_def by simp_all

lemma computeProfile_normal: "computeProfile Normal 960 480 world0 = worldNormal"
  by (simp add: computeProfile_def world0_def worldNormal_def js_round_def gapFactor_def
      speedFactor_def modeSky_def Let_def)

text \<open>
  With the profiles the size and mode effect computes, the range of the factory is not
  empty from a viewport height of 78 on; the component keeps the height between 200 and
  720.
\<close>

lemma computed_profile_fits:
  assumes "78 \<le> H"
  shows "js_round ((6 / 100) * of_int H)
           \<le> groundY (computeProfile m W H w) - js_round ((6 / 100) * of_int H)
               - pipeGap (computeProfile m W H w)"
proof -
  define h where "h = real_of_int H"
  define base where "base = max (120 * (h / 480)) (of_int (js_round (h * (28 / 100))))"
  define M where "M = max 36 ((8 / 100) * h)"
  define a where "a = js_round ((6 / 100) * h)"
  define p where "p = js_round (base * gapFactor m)"
  define g where "g = js_round (h - M)"
  have h: "78 \<le> h" using assms by (simp add: h_def)
  have A: "real_of_int a \<le> (6 / 100) * h + 1 / 2"
    using js_round_near[of "(6 / 100) * h"] unfolding a_def by linarith
  have G: "h - M - 1 / 2 \<le> real_of_int g"
    using js_round_near[of "h - M"] unfolding g_def by linarith
  have Mb: "M \<le> (8 / 100) * h + 2976 / 100" unfolding M_def using h by linarith
  have r: "real_of_int (js_round (h * (28 / 100))) \<le> (28 / 100) * h + 1 / 2"
    using js_round_near[of "h * (28 / 100)"] by linarith
  have q: "120 * (h / 480) \<le> (28 / 100) * h + 1 / 2" using h by linarith
  have b1: "base \<le> (28 / 100) * h + 1 / 2" unfolding base_def using q r by (rule max.boundedI)
  have f: "0 \<le> gapFactor m" "gapFactor m \<le> 135 / 100" by (simp_all add: gapFactor_def)
  have c0: "0 \<le> (28 / 100) * h + 1 / 2" using h by linarith
  have "base * gapFactor m \<le> ((28 / 100) * h + 1 / 2) * (135 / 100)"
    by (rule mult_mono[OF b1 f(2) c0 f(1)])
  then have "base * gapFactor m \<le> (378 / 1000) * h + 675 / 1000" by (simp add: algebra_simps)
  moreover have "real_of_int p \<le> base * gapFactor m + 1 / 2"
    using js_round_near[of "base * gapFactor m"] unfolding p_def by linarith
  ultimately have P: "real_of_int p \<le> (378 / 1000) * h + 1175 / 1000" by linarith
  have "real_of_int a + real_of_int a + real_of_int p \<le> real_of_int g"
    using A G Mb P h by linarith
  then have "a + a + p \<le> g" by linarith
  then show ?thesis
    unfolding a_def p_def g_def base_def M_def h_def by (simp add: profile_fields)
qed

subsection \<open>The seeded session\<close>

lemma upt_0_6: "[0 ..< 6] = [0, 1, 2, 3, 4, 5 :: nat]"
  by code_simp

lemma pipes_seeded: "generateInitialPipes rnd0 worldNormal 960 480 0 0 = pipesSeeded"
  by (simp add: generateInitialPipes_def worldNormal_def pipesSeeded_def makePipeAtX_def
      randRange_def rnd0_def js_round_def Let_def upt_0_6)

text \<open>
  The size and mode effect takes the state of the first render to \<open>stSeeded\<close>, and
  \<open>stSeeded\<close> is the state after the mount in a window 992 wide with nothing stored.
\<close>

lemma stSeeded_is_seeded: "applySizeAndMode rnd0 stMount = stSeeded"
proof -
  have "computeProfile (mode stMount) (displayW stMount) (displayH stMount) (worldRef stMount) = worldNormal"
    using computeProfile_normal by (simp add: stMount_def)
  then show ?thesis
    unfolding applySizeAndMode_def sizeAndModeEffect_def Let_def
    using pipes_seeded
    by (simp add: stMount_def stSeeded_def js_round_def rerender_def installLoop_def)
qed

lemma stMount_initial: "stMount = initial None"
  by (simp add: stMount_def initial_def initBest_def)

lemma mount_stSeeded: "mount rnd0 992 None = stSeeded"
proof -
  have r: "recomputeSize 992 = (960, 480)"
    by (simp add: recomputeSize_def js_round_def Let_def)
  have "installLoop (applySizeAndMode rnd0 stMount) = applySizeAndMode rnd0 stMount"
    unfolding stSeeded_is_seeded by (simp add: installLoop_def stSeeded_def)
  moreover have "applySizeAndMode rnd0 stMount = installLoop (sizeAndModeEffect rnd0 stMount)"
    by (simp add: applySizeAndMode_def rerender_def sizeAndModeEffect_def stMount_def Let_def)
  ultimately have "installLoop (sizeAndModeEffect rnd0 stMount) = stSeeded"
    using stSeeded_is_seeded by simp
  moreover have "(sizeAndModeEffect rnd0 stMount)\<lparr> displayW := 960, displayH := 480 \<rparr>
                   = sizeAndModeEffect rnd0 stMount"
    by (simp add: sizeAndModeEffect_def stMount_def Let_def)
  ultimately show ?thesis
    by (simp add: mount_def r Let_def stMount_initial[symmetric])
qed

lemma seeded_session:
  fixes st rnd
  defines "s0 \<equiv> applySizeAndMode rnd (st\<lparr> displayW := 960, displayH := 480, mode := Normal \<rparr>)"
  shows "running s0" "\<not> paused s0" "pipeSpacing (worldRef s0) = 307" "length (pipesRef s0) = 6"
    "gravity (worldRef s0) = 1 / 2" "flapImpulse (worldRef s0) = - 9" "groundY (worldRef s0) = 442"
    "birdRef s0 = \<lparr> bird_x = 173, bird_y = 240, bird_vy = 0, bird_r = 16, wingAngle = 0 \<rparr>"
    "\<not> gameOverRef s0"
  unfolding s0_def
  by (simp_all add: applySizeAndMode_def sizeAndModeEffect_def computeProfile_def generateInitialPipes_def js_round_def Let_def)

subsection \<open>The recycling loop returns\<close>

lemma takeWhile_snoc_le: "length (takeWhile P (xs @ [y])) \<le> Suc (length (takeWhile P xs))"
  by (induction xs) auto

lemma takeWhile_snoc_stop:
  assumes "xs \<noteq> []" "\<not> P (last xs)"
  shows "takeWhile P (xs @ [y]) = takeWhile P xs"
  using assms by (intro takeWhile_append1[of "last xs"]) simp_all

lemma deficit_step:
  fixes T x :: real and s :: int
  assumes "0 < s"
  shows "nat \<lceil>(T - (x + of_int s)) / of_int s\<rceil> \<le> nat \<lceil>(T - x) / of_int s\<rceil>"
    and "x < T \<Longrightarrow> nat \<lceil>(T - (x + of_int s)) / of_int s\<rceil> < nat \<lceil>(T - x) / of_int s\<rceil>"
proof -
  have s: "0 < (of_int s :: real)" using assms by simp
  have eq: "(T - (x + of_int s)) / of_int s = (T - x) / of_int s - 1"
    using s by (simp add: field_simps)
  have c: "\<lceil>(T - (x + of_int s)) / of_int s\<rceil> = \<lceil>(T - x) / of_int s\<rceil> - 1"
    unfolding eq by simp
  show "nat \<lceil>(T - (x + of_int s)) / of_int s\<rceil> \<le> nat \<lceil>(T - x) / of_int s\<rceil>"
    unfolding c by simp
  assume "x < T"
  then have "0 < (T - x) / of_int s" using s by simp
  then have "0 < \<lceil>(T - x) / of_int s\<rceil>" by simp
  then show "nat \<lceil>(T - (x + of_int s)) / of_int s\<rceil> < nat \<lceil>(T - x) / of_int s\<rceil>"
    unfolding c by simp
qed

lemma recycle_step_measure:
  assumes sp: "0 < pipeSpacing (worldRef st)"
    and ps: "pipesRef st = p # q # qs"
    and st2: "st2 = st\<lparr> pipesRef := (q # qs) @ [makePipeAtX (worldRef st) (loopH st)
                                (rnd (draws st)) (nextId st)
                                (pipe_x (last (q # qs)) + of_int (pipeSpacing (worldRef st)))],
                           nextId := Suc (nextId st),
                           draws := Suc (draws st) \<rparr>"
    and off: "offScreen (worldRef st) p"
  shows "recycleMeasure st2 < recycleMeasure st"
proof -
  let ?w = "worldRef st"
  let ?rest = "q # qs"
  let ?x = "pipe_x (last ?rest)"
  let ?T = "- 10 - of_int (pipeWidth ?w) :: real"
  let ?new = "makePipeAtX ?w (loopH st) (rnd (draws st)) (nextId st) (?x + of_int (pipeSpacing ?w))"
  let ?D = "\<lambda>x. nat \<lceil>(?T - x) / of_int (pipeSpacing ?w)\<rceil>"
  let ?tw = "\<lambda>xs. length (takeWhile (offScreen ?w) xs)"
  have m1: "recycleMeasure st = ?D ?x + Suc (?tw ?rest)"
    using off by (simp add: recycleMeasure_def ps)
  have m2: "recycleMeasure st2 = ?D (?x + of_int (pipeSpacing ?w)) + ?tw (?rest @ [?new])"
    by (simp add: recycleMeasure_def st2)
  show ?thesis
  proof (cases "offScreen ?w (last ?rest)")
    case True
    then have "?x < ?T" by (simp add: offScreen_def)
    then have "?D (?x + of_int (pipeSpacing ?w)) < ?D ?x" by (rule deficit_step(2)[OF sp])
    moreover have "?tw (?rest @ [?new]) \<le> Suc (?tw ?rest)" by (rule takeWhile_snoc_le)
    ultimately show ?thesis unfolding m1 m2 by linarith
  next
    case False
    then have "takeWhile (offScreen ?w) (?rest @ [?new]) = takeWhile (offScreen ?w) ?rest"
      by (intro takeWhile_snoc_stop) simp_all
    then have "?tw (?rest @ [?new]) = ?tw ?rest" by simp
    moreover have "?D (?x + of_int (pipeSpacing ?w)) \<le> ?D ?x" by (rule deficit_step(1)[OF sp])
    ultimately show ?thesis unfolding m1 m2 by linarith
  qed
qed

text \<open>
  With a positive spacing the loop ends on every queue that does not hold exactly one
  pipe, without an error, and changes nothing but the queue and the two counters of the
  model.
\<close>

lemma recycle_total:
  assumes "0 < pipeSpacing (worldRef st)" "length (pipesRef st) \<noteq> 1"
  shows "\<exists>ps n d. recycle rnd st = Some (Inr (st\<lparr> pipesRef := ps, nextId := n, draws := d \<rparr>))
           \<and> length ps = length (pipesRef st)"
  using assms
proof (induction "recycleMeasure st" arbitrary: st rule: less_induct)
  case less
  have triv: "st = st\<lparr> pipesRef := pipesRef st, nextId := nextId st, draws := draws st \<rparr>" by simp
  show ?case
  proof (cases "pipesRef st")
    case Nil
    then have "recycle rnd st = Some (Inr st)" by (subst recycle.simps) simp
    with triv show ?thesis by metis
  next
    case (Cons p rest)
    show ?thesis
    proof (cases "offScreen (worldRef st) p")
      case False
      then have "recycle rnd st = Some (Inr st)"
        by (subst recycle.simps) (simp add: Cons offScreen_def)
      with triv show ?thesis by metis
    next
      case True
      from less.prems(2) Cons obtain q qs where rest: "rest = q # qs" by (cases rest) auto
      define st2 where "st2 = st\<lparr> pipesRef := (q # qs) @ [makePipeAtX (worldRef st) (loopH st)
                                (rnd (draws st)) (nextId st)
                                (pipe_x (last (q # qs)) + of_int (pipeSpacing (worldRef st)))],
                           nextId := Suc (nextId st),
                           draws := Suc (draws st) \<rparr>"
      have ps: "pipesRef st = p # q # qs" using Cons rest by simp
      have step: "recycle rnd st = recycle rnd st2"
        using True by (subst recycle.simps) (simp add: ps offScreen_def st2_def)
      have meas: "recycleMeasure st2 < recycleMeasure st"
        using less.prems(1) ps st2_def True by (rule recycle_step_measure[where rnd = rnd])
      have sp2: "0 < pipeSpacing (worldRef st2)" using less.prems(1) by (simp add: st2_def)
      have len2: "length (pipesRef st2) \<noteq> 1" by (simp add: st2_def)
      from less.hyps[OF meas sp2 len2] obtain ps' n d where
        r: "recycle rnd st2 = Some (Inr (st2\<lparr> pipesRef := ps', nextId := n, draws := d \<rparr>))"
        and l: "length ps' = length (pipesRef st2)" by blast
      have "st2\<lparr> pipesRef := ps', nextId := n, draws := d \<rparr> = st\<lparr> pipesRef := ps', nextId := n, draws := d \<rparr>"
        by (simp add: st2_def)
      moreover have "length (pipesRef st2) = length (pipesRef st)" by (simp add: st2_def ps)
      ultimately show ?thesis using step r l by metis
    qed
  qed
qed

subsection \<open>Identities through the queue operations\<close>





subsection \<open>What the collision step leaves alone\<close>

lemma credit_frame [simp]:
  "birdRef (credit p st) = birdRef st" "worldRef (credit p st) = worldRef st"
  "pipesRef (credit p st) = pipesRef st" "nextId (credit p st) = nextId st"
  "draws (credit p st) = draws st" "running (credit p st) = running st"
  "paused (credit p st) = paused st" "gameOverRef (credit p st) = gameOverRef st"
  by (simp_all add: credit_def Let_def)

lemma endGame_frame [simp]:
  "birdRef (endGame st) = birdRef st" "worldRef (endGame st) = worldRef st"
  "pipesRef (endGame st) = pipesRef st" "nextId (endGame st) = nextId st"
  "draws (endGame st) = draws st" "running (endGame st) = running st"
  "score (endGame st) = score st" "scoredSetRef (endGame st) = scoredSetRef st"
  "best (endGame st) = best st" "writes (endGame st) = writes st"
  "storage (endGame st) = storage st" "gameOverRef (endGame st) = True"
  by (simp_all add: endGame_def)

lemma pipeLoop_frame:
  "birdRef (snd (pipeLoop ps st)) = birdRef st \<and> worldRef (snd (pipeLoop ps st)) = worldRef st
   \<and> pipesRef (snd (pipeLoop ps st)) = pipesRef st \<and> nextId (snd (pipeLoop ps st)) = nextId st
   \<and> draws (snd (pipeLoop ps st)) = draws st \<and> running (snd (pipeLoop ps st)) = running st"
  by (induction ps arbitrary: st) (simp_all add: Let_def)

lemma collide_alt:
  "collide st =
     (if bird_y (birdRef st) + of_int (bird_r (birdRef st)) > of_int (groundY (worldRef st))
      then endGame (st\<lparr> birdRef := (birdRef st)\<lparr> bird_y := of_int (groundY (worldRef st) - bird_r (birdRef st)) \<rparr> \<rparr>)
      else
        (let st1 = (if bird_y (birdRef st) - of_int (bird_r (birdRef st)) < 0
                    then st\<lparr> birdRef := (birdRef st)\<lparr> bird_y := of_int (bird_r (birdRef st)), bird_vy := 0 \<rparr> \<rparr>
                    else st);
             res = pipeLoop (pipesRef st1) st1
         in if fst res then snd res
            else (snd res)\<lparr> worldRef := (worldRef (snd res))\<lparr> world_t := world_t (worldRef (snd res)) + 1 \<rparr> \<rparr>))"
  unfolding collide_def Let_def by (simp split: prod.split bool.split)

lemma collide_bird:
  "birdRef (collide st) =
     (if bird_y (birdRef st) + of_int (bird_r (birdRef st)) > of_int (groundY (worldRef st))
      then (birdRef st)\<lparr> bird_y := of_int (groundY (worldRef st) - bird_r (birdRef st)) \<rparr>
      else if bird_y (birdRef st) - of_int (bird_r (birdRef st)) < 0
      then (birdRef st)\<lparr> bird_y := of_int (bird_r (birdRef st)), bird_vy := 0 \<rparr>
      else birdRef st)"
  unfolding collide_alt Let_def by (simp add: pipeLoop_frame)

subsection \<open>The loop over the pipes\<close>



















subsection \<open>The best score through the loop\<close>

lemma credit_best:
  "writes (credit p st) = writes st @ (if loopBest st < score st + 1 then [score st + 1] else [])"
  "best (credit p st) = (if loopBest st < score st + 1 then score st + 1 else best st)"
  "storage (credit p st) = (if loopBest st < score st + 1 then Some (score st + 1) else storage st)"
  "loopBest (credit p st) = loopBest st"
  by (simp_all add: credit_def Let_def)








subsection \<open>A tick returns\<close>

text \<open>
  A tick of a running, unpaused session returns a state: the collision step applied to
  the integrated state with a new queue.
\<close>

lemma update_total:
  assumes "running st" "\<not> paused st" "0 < pipeSpacing (worldRef st)" "length (pipesRef st) \<noteq> 1"
  shows "\<exists>ps n d. update rnd st
           = Some (Inr (collide ((physics st)\<lparr> pipesRef := ps, nextId := n, draws := d \<rparr>)))"
proof -
  let ?st1 = "movePipes (physics st)"
  have "0 < pipeSpacing (worldRef ?st1)" "length (pipesRef ?st1) \<noteq> 1"
    using assms by (simp_all add: movePipes_def physics_def Let_def)
  from recycle_total[OF this, of rnd] obtain ps n d where
    r: "recycle rnd ?st1 = Some (Inr (?st1\<lparr> pipesRef := ps, nextId := n, draws := d \<rparr>))" by blast
  have m: "?st1\<lparr> pipesRef := ps, nextId := n, draws := d \<rparr>
             = (physics st)\<lparr> pipesRef := ps, nextId := n, draws := d \<rparr>" for ps n d
    by (simp add: movePipes_def)
  have "\<exists>ps' n' d'. spawnIfEmpty rnd ((physics st)\<lparr> pipesRef := ps, nextId := n, draws := d \<rparr>)
          = (physics st)\<lparr> pipesRef := ps', nextId := n', draws := d' \<rparr>"
    by (cases "ps = []") (auto simp: spawnIfEmpty_def)
  then obtain ps' n' d' where
    s: "spawnIfEmpty rnd ((physics st)\<lparr> pipesRef := ps, nextId := n, draws := d \<rparr>)
          = (physics st)\<lparr> pipesRef := ps', nextId := n', draws := d' \<rparr>" by blast
  have "update rnd st = Some (Inr (collide ((physics st)\<lparr> pipesRef := ps', nextId := n', draws := d' \<rparr>)))"
    using assms(1,2) by (simp add: update_def r m s)
  then show ?thesis by blast
qed





subsection \<open>Running the concrete sessions\<close>

text \<open>
  Rules for running the model on a concrete state frame by frame: the frame and round
  counters as numerals, a tick that recycles nothing, a tick that recycles, and the loop
  over the pipes at a pipe still ahead of the bird and at a pipe the bird has reached.
\<close>

lemma frames_numeral:
  "frames rnd (numeral k) st =
     (case update rnd st of Some (Inr st') \<Rightarrow> frames rnd (pred_numeral k) st' | r \<Rightarrow> r)"
  by (simp add: numeral_eq_Suc)

lemma flapEvery_numeral:
  "flapEvery rnd n (numeral k) st =
     (case frames rnd n (flap rnd st) of Some (Inr st') \<Rightarrow> flapEvery rnd n (pred_numeral k) st' | r \<Rightarrow> r)"
  by (simp add: numeral_eq_Suc)

lemma pipeLoop_far:
  "of_int (bird_x (birdRef st) + bird_r (birdRef st)) \<le> pipe_x p \<Longrightarrow> 0 \<le> pipeWidth (worldRef st)
   \<Longrightarrow> 0 \<le> bird_r (birdRef st) \<Longrightarrow> pipeLoop (p # ps) st = pipeLoop ps st"
  by (auto simp: Let_def)

lemma pipeLoop_near:
  "pipe_x p < of_int (bird_x (birdRef st) + bird_r (birdRef st)) \<Longrightarrow>
   pipeLoop (p # ps) st =
     (if of_int (bird_x (birdRef st) - bird_r (birdRef st)) < pipe_x p + of_int (pipeWidth (worldRef st))
         \<and> (bird_y (birdRef st) - of_int (bird_r (birdRef st)) < of_int (topH p)
              \<or> bird_y (birdRef st) + of_int (bird_r (birdRef st)) > of_int (topH p + pipeGap (worldRef st)))
      then (True, endGame st)
      else pipeLoop ps
             (if pipe_x p + of_int (pipeWidth (worldRef st)) / 2 < of_int (bird_x (birdRef st))
                 \<and> pipe_id p \<notin> set (scoredSetRef st)
              then credit p st else st))"
  by (simp add: Let_def)

lemma update_plain:
  "running st \<Longrightarrow> \<not> paused st \<Longrightarrow> pipesRef st = p # q # ps
   \<Longrightarrow> \<not> pipe_x p - speed (worldRef st) + of_int (pipeWidth (worldRef st)) < - 10
   \<Longrightarrow> update rnd st = Some (Inr (collide (movePipes (physics st))))"
  by (simp add: update_def recycle.simps movePipes_def physics_def spawnIfEmpty_def Let_def)

lemma update_recycling:
  "running st \<Longrightarrow> \<not> paused st \<Longrightarrow> pipesRef st = p # ps
   \<Longrightarrow> pipe_x p - speed (worldRef st) + of_int (pipeWidth (worldRef st)) < - 10
   \<Longrightarrow> update rnd st =
       (case recycle rnd (movePipes (physics st)) of
          None \<Rightarrow> None
        | Some (Inl e) \<Rightarrow> Some (Inl e)
        | Some (Inr st1) \<Rightarrow> Some (Inr (collide (spawnIfEmpty rnd st1))))"
  by (simp add: update_def)

lemmas tick_eval = update_def flap_def physics_def movePipes_def recycle.simps spawnIfEmpty_def
  collide_def endGame_def rerender_def installLoop_def credit_def makePipeAtX_def randRange_def
  js_round_def rnd0_def Let_def

lemmas frame_eval = frames_numeral flapEvery_numeral update_plain update_recycling pipeLoop_far
  pipeLoop_near flap_def physics_def movePipes_def recycle.simps spawnIfEmpty_def
  collide_def endGame_def rerender_def installLoop_def credit_def makePipeAtX_def randRange_def
  js_round_def rnd0_def Let_def

text \<open>
  While every pipe is ahead of the bird and the bird is in the air, \<open>n\<close> frames of a
  running session lead to \<open>coast n\<close>: the queue is not touched, nothing is hit, nothing is
  credited.
\<close>

lemma physics_fall: "physics st = st\<lparr> birdRef := fall (gravity (worldRef st)) (birdRef st) \<rparr>"
  by (simp add: physics_def fall_def Let_def)

lemma fall_frame [simp]: "bird_x (fall g b) = bird_x b" "bird_r (fall g b) = bird_r b"
  by (simp_all add: fall_def)

lemma pipeLoop_all_far:
  "list_all (\<lambda>p. of_int (bird_x (birdRef st) + bird_r (birdRef st)) \<le> pipe_x p) ps
   \<Longrightarrow> 0 \<le> pipeWidth (worldRef st) \<Longrightarrow> 0 \<le> bird_r (birdRef st)
   \<Longrightarrow> pipeLoop ps st = (False, st)"
  by (induction ps) (simp_all add: pipeLoop_far del: pipeLoop.simps(2))

lemma coast_step:
  assumes "running st" "\<not> paused st" "ahead (Suc n) st"
    and "inAir (gravity (worldRef st)) (groundY (worldRef st)) (Suc n) (birdRef st)"
  shows "update rnd st = Some (Inr (coast (Suc 0) st))"
proof -
  let ?w = "worldRef st" and ?b = "birdRef st"
  from assms(3) obtain p ps where ps: "pipesRef st = p # ps"
    by (cases "pipesRef st") (auto simp: ahead_def)
  have a: "0 \<le> speed ?w" "0 \<le> pipeWidth ?w" "0 \<le> bird_r ?b" "0 \<le> bird_x ?b"
    and far: "list_all (\<lambda>p. of_int (bird_x ?b + bird_r ?b) \<le> pipe_x p - of_nat (Suc n) * speed ?w) (pipesRef st)"
    using assms(3) by (simp_all add: ahead_def)
  have ns: "speed ?w \<le> of_nat (Suc n) * speed ?w"
    using a(1) by (simp add: algebra_simps)
  have far1: "list_all (\<lambda>p. of_int (bird_x ?b + bird_r ?b) \<le> pipe_x p - speed ?w) (pipesRef st)"
    using far ns unfolding list_all_iff by fastforce
  have hd: "\<not> pipe_x p - speed ?w + of_int (pipeWidth ?w) < - 10"
    using far1 a by (simp add: ps)
  define X where "X = st\<lparr> birdRef := fall (gravity ?w) ?b,
                         pipesRef := map (\<lambda>p. p\<lparr> pipe_x := pipe_x p - speed ?w \<rparr>) (pipesRef st) \<rparr>"
  have st1: "movePipes (physics st) = X"
    by (simp add: movePipes_def physics_fall X_def)
  have X: "birdRef X = fall (gravity ?w) ?b" "worldRef X = ?w"
    "pipesRef X = map (\<lambda>p. p\<lparr> pipe_x := pipe_x p - speed ?w \<rparr>) (pipesRef st)"
    by (simp_all add: X_def)
  have r: "recycle rnd X = Some (Inr X)"
    using hd by (subst recycle.simps) (simp add: X ps)
  have s: "spawnIfEmpty rnd X = X" by (simp add: spawnIfEmpty_def X ps)
  have g: "\<not> bird_y (birdRef X) + of_int (bird_r (birdRef X)) > of_int (groundY (worldRef X))"
    "\<not> bird_y (birdRef X) - of_int (bird_r (birdRef X)) < 0"
    using assms(4) by (simp_all add: X)
  have far2: "list_all (\<lambda>p. of_int (bird_x (birdRef X) + bird_r (birdRef X)) \<le> pipe_x p) (pipesRef X)"
    using far1 by (simp add: X list_all_iff)
  have pl: "pipeLoop (pipesRef X) X = (False, X)"
    using far2 a by (intro pipeLoop_all_far) (simp_all add: X)
  have c: "collide X = X\<lparr> worldRef := (worldRef X)\<lparr> world_t := world_t (worldRef X) + 1 \<rparr> \<rparr>"
    unfolding collide_alt Let_def using g by (simp add: pl)
  have "update rnd st = Some (Inr (collide X))"
    using assms(1,2) by (simp add: update_def st1 r s)
  also have "collide X = coast (Suc 0) st"
    unfolding c by (simp add: X_def coast_def)
  finally show ?thesis .
qed

lemma coast_Suc:
  "coast n (coast (Suc 0) st) = coast (Suc n) st"
  by (simp add: coast_def algebra_simps comp_def)

lemma coast_frames:
  "running st \<Longrightarrow> \<not> paused st \<Longrightarrow> ahead n st
   \<Longrightarrow> inAir (gravity (worldRef st)) (groundY (worldRef st)) n (birdRef st)
   \<Longrightarrow> frames rnd n st = Some (Inr (coast n st))"
proof (induction n arbitrary: st)
  case 0
  show ?case by (simp add: coast_def)
next
  case (Suc n)
  let ?s = "coast (Suc 0) st"
  have u: "update rnd st = Some (Inr ?s)" using Suc.prems by (rule coast_step)
  have ns: "of_nat n * speed (worldRef st) + speed (worldRef st) = of_nat (Suc n) * speed (worldRef st)"
    by (simp add: algebra_simps)
  have a: "ahead n ?s"
    using Suc.prems(3) unfolding ahead_def coast_def list_all_iff
    by (auto simp: algebra_simps)
  have i: "inAir (gravity (worldRef ?s)) (groundY (worldRef ?s)) n (birdRef ?s)"
    using Suc.prems(4) by (simp add: coast_def)
  have "frames rnd n ?s = Some (Inr (coast n ?s))"
    using Suc.prems(1,2) a i by (intro Suc.IH) (simp_all add: coast_def)
  then show ?case using u by (simp add: coast_Suc)
qed

lemma glide_numeral: "glide g (numeral k) b = glide g (pred_numeral k) (fall g b)"
  by (simp add: numeral_eq_Suc)

lemma inAir_numeral:
  "inAir g gy (numeral k) b =
     (\<not> bird_y (fall g b) + of_int (bird_r b) > of_int gy
      \<and> \<not> bird_y (fall g b) - of_int (bird_r b) < 0
      \<and> inAir g gy (pred_numeral k) (fall g b))"
  by (simp add: numeral_eq_Suc)

lemmas coast_eval = flapEvery_numeral coast_frames coast_def ahead_def glide_numeral inAir_numeral
  fall_def flap_def

text \<open>
  Without a flap the seeded session reaches \<open>stFalling\<close> in 26 frames; the next frame
  takes the bird to the ground and ends the game (\<open>stLanded\<close>); the pause key then gives
  \<open>stTerminal\<close>.
\<close>

lemma stFalling_reached: "frames rnd0 26 stSeeded = Some (Inr stFalling)"
  by (simp add: coast_eval stSeeded_def stFalling_def worldNormal_def pipesSeeded_def)

lemma stLanded_reached: "update rnd0 stFalling = Some (Inr stLanded)"
  by (simp add: update_def stFalling_def stLanded_def stSeeded_def worldNormal_def pipesSeeded_def
      physics_def movePipes_def recycle.simps spawnIfEmpty_def collide_def endGame_def
      rerender_def installLoop_def Let_def)

lemma stTerminal_reached: "togglePause stLanded = stTerminal"
  by (simp add: togglePause_def stTerminal_def stLanded_def stSeeded_def rerender_def
      installLoop_def)

text \<open>With a flap every 35 frames the seeded session reaches \<open>stNine\<close> after nine rounds.\<close>

lemma stNine_reached: "flapEvery rnd0 35 9 stSeeded = Some (Inr stNine)"
  by (simp add: coast_eval stNine_def stSeeded_def worldNormal_def pipesSeeded_def)

text \<open>
  From \<open>stNine\<close>, a flap and 18 frames give \<open>stPassing\<close>; a flap, 16 frames, another
  flap and 2 frames give \<open>stCrossing\<close>.
\<close>

lemma stPassing_reached: "frames rnd0 18 (flap rnd0 stNine) = Some (Inr stPassing)"
  by (simp add: frame_eval stPassing_def stNine_def stSeeded_def worldNormal_def
      pipesSeeded_def del: pipeLoop.simps(2))

lemma stCrossing_reached:
  "(case frames rnd0 16 (flap rnd0 stNine) of
      Some (Inr s) \<Rightarrow> frames rnd0 2 (flap rnd0 s)
    | r \<Rightarrow> r) = Some (Inr stCrossing)"
  by (simp add: frame_eval stCrossing_def stNine_def stSeeded_def worldNormal_def
      pipesSeeded_def del: pipeLoop.simps(2))






subsection \<open>The values the loop holds can be out of date\<close>

text \<open>
  A restart, a change of mode or a resize while the session runs leaves \<open>running\<close> and
  \<open>paused\<close> as they are, so the loop is not installed again: it keeps the best score and
  the size of the render that installed it, while the score returns to 0 and the size
  and the profile are the new ones.
\<close>

lemma loop_kept_in_play:
  assumes "running st" "\<not> paused st"
  shows "loopBest (restart rnd st) = loopBest st \<and> loopW (restart rnd st) = loopW st
         \<and> loopH (restart rnd st) = loopH st
         \<and> best (restart rnd st) = best st \<and> score (restart rnd st) = 0"
    and "loopBest (applySizeAndMode rnd (st\<lparr> displayW := W, displayH := H, mode := m \<rparr>)) = loopBest st
         \<and> loopW (applySizeAndMode rnd (st\<lparr> displayW := W, displayH := H, mode := m \<rparr>)) = loopW st
         \<and> loopH (applySizeAndMode rnd (st\<lparr> displayW := W, displayH := H, mode := m \<rparr>)) = loopH st
         \<and> displayH (applySizeAndMode rnd (st\<lparr> displayW := W, displayH := H, mode := m \<rparr>)) = H
         \<and> best (applySizeAndMode rnd (st\<lparr> displayW := W, displayH := H, mode := m \<rparr>)) = best st
         \<and> score (applySizeAndMode rnd (st\<lparr> displayW := W, displayH := H, mode := m \<rparr>)) = 0"
  using assms
  by (simp_all add: restart_def resetGame_def resetGameAt_def applySizeAndMode_def sizeAndModeEffect_def rerender_def Let_def)

text \<open>
  The loop is installed with the values of the moment whenever \<open>running\<close> or \<open>paused\<close>
  changes; if the score is not above the best score then, the best score is the larger of
  the value the loop holds and the score.
\<close>

lemma installLoop_view:
  "score st \<le> best st \<Longrightarrow>
   best (installLoop st) = max (loopBest (installLoop st)) (score (installLoop st))"
  by (simp add: installLoop_def)

text \<open>
  A pipe credited while the loop holds a best score below the score is written to the
  store and becomes the best score, whatever the best score was.
\<close>

lemma credit_below_best:
  "loopBest st < score st + 1 \<Longrightarrow>
   best (credit p st) = score st + 1 \<and> storage (credit p st) = Some (score st + 1)
   \<and> writes (credit p st) = writes st @ [score st + 1]"
  by (simp add: credit_best)

text \<open>
  After a resize from 960 by 480 to 1440 by 720 in play, the factory of the loop still
  computes its margins from the height 480: with the outcome 0 a recycled pipe has
  \<open>topH = 29\<close>, under the margin 43 of the new height.
\<close>

lemma stale_height_margin:
  "js_round ((6 / 100) * of_int 720) = 43
   \<and> topH (makePipeAtX (computeProfile Normal 1440 720 world0) 480 0 i x) = 29"
  by (simp add: makePipeAtX_def computeProfile_def Let_def js_round_def randRange_def gapFactor_def
      world0_def)

text \<open>
  The session restarted at frame 455 holds the best score 2, and its loop still the best
  score 0 of its installation. Played as before, its first pipe passes 334 frames after
  the restart: the score 1 is written to the store, which held 2, and the best score
  goes from 2 to 1.
\<close>

lemma stRestarted_reached: "restart rnd0 stThirteen = stRestarted"
  by (simp add: restart_def resetGame_def resetGameAt_def rerender_def stRestarted_def stThirteen_def stSeeded_def
      worldNormal_def pipesSeeded_def generateInitialPipes_def makePipeAtX_def randRange_def
      js_round_def rnd0_def upt_0_6 Let_def)

lemma stNineAgain_reached: "flapEvery rnd0 35 9 stRestarted = Some (Inr stNineAgain)"
  by (simp add: coast_eval stNineAgain_def stRestarted_def stThirteen_def stSeeded_def
      worldNormal_def pipesSeeded_def)

lemma stPassingAgain_reached: "frames rnd0 18 (flap rnd0 stNineAgain) = Some (Inr stPassingAgain)"
  by (simp add: frame_eval stPassingAgain_def stNineAgain_def stRestarted_def stThirteen_def
      stSeeded_def worldNormal_def pipesSeeded_def del: pipeLoop.simps(2))

lemma stale_best_lowers_record:
  "running stThirteen \<and> \<not> paused stThirteen
   \<and> best stPassingAgain = 2 \<and> loopBest stPassingAgain = 0 \<and> score stPassingAgain = 0
   \<and> writes stPassingAgain = [1, 2] \<and> storage stPassingAgain = Some 2
   \<and> update rnd0 stPassingAgain = Some (Inr stLowered)
   \<and> best stLowered = 1 \<and> score stLowered = 1 \<and> writes stLowered = [1, 2, 1]
   \<and> storage stLowered = Some 1"
proof -
  have e: "update rnd0 stPassingAgain = Some (Inr stLowered)"
    by (simp add: tick_eval stLowered_def stPassingAgain_def stNineAgain_def stRestarted_def
        stThirteen_def stSeeded_def worldNormal_def pipesSeeded_def)
  show ?thesis
    using e by (simp add: stLowered_def stPassingAgain_def stNineAgain_def stRestarted_def
        stThirteen_def stSeeded_def)
qed

section \<open>The claims\<close>

subsection \<open>C1: the gap of a generated obstacle\<close>

text \<open>
  C1, as amended. Let \<open>H\<close> be the height that the factory reads (the \<open>displaySize.h\<close> of
  the render whose \<open>makePipeAtX\<close> is called), \<open>w\<close> the profile it reads, and
  \<open>m = Math.round(0.06 * H)\<close> the margin it computes. For every outcome \<open>u\<close> of the random
  generator: when the range is not empty, \<open>m \<le> groundY - m - pipeGap\<close>, the obstacle has
  \<open>topH \<ge> m\<close> and \<open>topH + pipeGap \<le> groundY - m\<close>; when the range is empty, the clamp
  collapses it, \<open>topH\<close> is the single value \<open>max(0, groundY - m - pipeGap)\<close>, and one
  of the two bounds fails. With the profile that the size and mode effect computes for the
  same height, the range is not empty from a height of 78 on, so there the two bounds
  hold; the heights that \<open>recomputeSize\<close> gives are between 200 and 720. The statement
  is about the height the factory reads; where the loop holds an earlier height than the
  viewport has, it says nothing about the margins of the viewport.
\<close>

theorem C1_gap_within_margins:
  fixes H :: int and w w0 :: world and u x iw :: real
  defines "m \<equiv> js_round ((6 / 100) * of_int H)"
  assumes "0 \<le> u" "u < 1" "0 \<le> H"
  shows "(m \<le> groundY w - m - pipeGap w \<longrightarrow>
            m \<le> topH (makePipeAtX w H u i x) \<and> topH (makePipeAtX w H u i x) + pipeGap w \<le> groundY w - m)
       \<and> (groundY w - m - pipeGap w < m \<longrightarrow>
            topH (makePipeAtX w H u i x) = max 0 (groundY w - m - pipeGap w)
            \<and> \<not> (m \<le> topH (makePipeAtX w H u i x)
                   \<and> topH (makePipeAtX w H u i x) + pipeGap w \<le> groundY w - m))
       \<and> (78 \<le> H \<longrightarrow>
            m \<le> topH (makePipeAtX (computeProfile md W H w0) H u i x)
            \<and> topH (makePipeAtX (computeProfile md W H w0) H u i x) + pipeGap (computeProfile md W H w0)
                  \<le> groundY (computeProfile md W H w0) - m)
       \<and> 200 \<le> snd (recomputeSize iw) \<and> snd (recomputeSize iw) \<le> 720"
proof -
  have "(0::real) \<le> (6 / 100) * of_int H" using assms(4) by simp
  then have "js_round 0 \<le> m" unfolding m_def by (rule js_round_mono)
  then have m0: "0 \<le> m" by (simp add: js_round_def)
  have fit: "m \<le> topH (makePipeAtX v H u i x) \<and> topH (makePipeAtX v H u i x) + pipeGap v \<le> groundY v - m"
    if f: "m \<le> groundY v - m - pipeGap v" for v
  proof -
    let ?maxA = "groundY v - m - pipeGap v"
    have minTop: "max 0 (min m ?maxA) = m" using m0 f by simp
    have maxTop: "max m ?maxA = ?maxA" using f by simp
    have "topH (makePipeAtX v H u i x) = randRange m ?maxA u"
      unfolding makePipeAtX_def Let_def m_def[symmetric] minTop maxTop by simp
    moreover have "m \<le> randRange m ?maxA u \<and> randRange m ?maxA u \<le> ?maxA"
      using assms(2,3) f by (intro randRange_bounds) simp_all
    ultimately show ?thesis by simp
  qed
  have collapse: "topH (makePipeAtX w H u i x) = max 0 (groundY w - m - pipeGap w)
                  \<and> \<not> (m \<le> topH (makePipeAtX w H u i x)
                         \<and> topH (makePipeAtX w H u i x) + pipeGap w \<le> groundY w - m)"
    if e: "groundY w - m - pipeGap w < m"
  proof -
    let ?maxA = "groundY w - m - pipeGap w"
    have minTop: "max 0 (min m ?maxA) = max 0 ?maxA" using e by simp
    have maxTop: "max (max 0 ?maxA) ?maxA = max 0 ?maxA" by simp
    have "\<lfloor>u\<rfloor> = 0" using assms(2,3) by linarith
    then have "randRange (max 0 ?maxA) (max 0 ?maxA) u = max 0 ?maxA"
      by (simp add: randRange_def)
    then have t: "topH (makePipeAtX w H u i x) = max 0 ?maxA"
      unfolding makePipeAtX_def Let_def m_def[symmetric] minTop maxTop by simp
    show ?thesis using t e by (cases "0 \<le> ?maxA") simp_all
  qed
  have "m \<le> groundY (computeProfile md W H w0) - m - pipeGap (computeProfile md W H w0)"
    if "78 \<le> H"
    unfolding m_def using that by (rule computed_profile_fits)
  then show ?thesis using fit collapse recomputeSize_bounds[of iw] by blast
qed

text \<open>
  The witness: the normal profile at 960 by 480 (margin 29, gap 134, ground line 442)
  and the outcome \<open>0.4\<close>, which gives \<open>topH = 129\<close>, inside the bounds; and the easy
  profile at 100 by 50 (margin 3, gap 19, ground line 14), where the range is empty and the
  same outcome gives \<open>topH = 0\<close>.
\<close>

theorem C1_gap_within_margins_witness:
  "(0::real) \<le> 2 / 5 \<and> (2 / 5 :: real) < 1 \<and> (0::int) \<le> 480 \<and> (78::int) \<le> 480
   \<and> js_round ((6 / 100) * of_int 480) = 29
   \<and> computeProfile Normal 960 480 world0 = worldNormal
   \<and> 29 \<le> groundY worldNormal - 29 - pipeGap worldNormal
   \<and> 29 \<le> topH (makePipeAtX worldNormal 480 (2 / 5) 0 1144)
   \<and> topH (makePipeAtX worldNormal 480 (2 / 5) 0 1144) + 134 \<le> 442 - 29
   \<and> js_round ((6 / 100) * of_int 50) = 3
   \<and> groundY (computeProfile Easy 100 50 world0) - 3 - pipeGap (computeProfile Easy 100 50 world0) < 3
   \<and> topH (makePipeAtX (computeProfile Easy 100 50 world0) 50 (2 / 5) 0 0) = 0"
proof -
  have r: "js_round ((6 / 100) * of_int 480) = 29" "js_round ((6 / 100) * of_int 50) = 3"
    by (simp_all add: js_round_def)
  have v: "groundY worldNormal = 442" "pipeGap worldNormal = 134"
    by (simp_all add: worldNormal_def)
  have e: "groundY (computeProfile Easy 100 50 world0) = 14" "pipeGap (computeProfile Easy 100 50 world0) = 19"
    by (simp_all add: computeProfile_def Let_def js_round_def gapFactor_def)
  have a: "29 \<le> topH (makePipeAtX worldNormal 480 (2 / 5) 0 1144)
           \<and> topH (makePipeAtX worldNormal 480 (2 / 5) 0 1144) + 134 \<le> 442 - 29"
    using C1_gap_within_margins[of "2 / 5" 480 worldNormal 0 1144 Normal 960 world0 992]
    unfolding r v by simp
  have b: "topH (makePipeAtX (computeProfile Easy 100 50 world0) 50 (2 / 5) 0 0) = 0"
    using C1_gap_within_margins[of "2 / 5" 50 "computeProfile Easy 100 50 world0" 0 0 Easy 100 world0 992]
    unfolding r e by simp
  show ?thesis using a b r v e computeProfile_normal by simp
qed

text \<open>
  The claim as stated fails in two places. In easy mode at 100 by 50 the profile has gap 19
  and ground line 14, the clamp collapses the range to the single value 0, and the
  obstacle has \<open>topH = 0\<close>, below the top margin 3, with its gap ending at 19, under the
  ground line. And the margins of the code are rounded: in normal mode at 980 by 490 the
  outcome 0 gives \<open>topH = 29\<close>, less than \<open>0.06 * 490 = 29.4\<close>.
\<close>

theorem C1_gap_within_margins_counterexample:
  "\<not> ((6 / 100) * 50 \<le> real_of_int (topH (makePipeAtX (computeProfile Easy 100 50 world0) 50 0 0 0))
       \<and> real_of_int (topH (makePipeAtX (computeProfile Easy 100 50 world0) 50 0 0 0)
                        + pipeGap (computeProfile Easy 100 50 world0))
           \<le> real_of_int (groundY (computeProfile Easy 100 50 world0)) - (6 / 100) * 50)
   \<and> \<not> ((6 / 100) * 490 \<le> real_of_int (topH (makePipeAtX (computeProfile Normal 980 490 world0) 490 0 0 0)))"
  by (simp add: makePipeAtX_def computeProfile_def Let_def js_round_def randRange_def
      gapFactor_def world0_def)

subsection \<open>C2: the tick returns on the queues of the application\<close>




subsection \<open>C3: one credit for every obstacle\<close>




subsection \<open>C4: the guard of the tick\<close>

text \<open>
  C4, as amended. Whenever \<open>running\<close> is false or \<open>paused\<close> is true, \<open>update\<close> returns
  the state unchanged. The terminal flag is not part of the guard.
\<close>

theorem C4_update_noop_unless_running_unpaused:
  "\<not> running st \<or> paused st \<Longrightarrow> update rnd st = Some (Inr st)"
  by (simp add: update_def)

text \<open>The witness: the state after the bird has landed, which \<open>endGame\<close> paused.\<close>

theorem C4_update_noop_unless_running_unpaused_witness:
  "paused stLanded \<and> gameOverRef stLanded \<and> update rnd0 stLanded = Some (Inr stLanded)"
proof -
  have p: "paused stLanded" "gameOverRef stLanded" by (simp_all add: stLanded_def)
  then have h: "\<not> running stLanded \<or> paused stLanded" by simp
  show ?thesis using p C4_update_noop_unless_running_unpaused[OF h, of rnd0] by simp
qed

text \<open>
  The claim as stated fails on a terminal state that is not paused, which the pause
  key produces after the end of a game: the tick runs and the state changes.
\<close>

theorem C4_terminal_tick_counterexample:
  "running stTerminal \<and> \<not> paused stTerminal \<and> gameOverRef stTerminal
   \<and> update rnd0 stTerminal \<noteq> Some (Inr stTerminal)"
proof -
  have r: "running stTerminal" "\<not> paused stTerminal" "0 < pipeSpacing (worldRef stTerminal)"
    "length (pipesRef stTerminal) \<noteq> 1" "gameOverRef stTerminal"
    by (simp_all add: stTerminal_def stLanded_def stSeeded_def worldNormal_def pipesSeeded_def)
  from update_total[OF r(1-4), of rnd0] obtain ps n d where
    u: "update rnd0 stTerminal
          = Some (Inr (collide ((physics stTerminal)\<lparr> pipesRef := ps, nextId := n, draws := d \<rparr>)))"
    by blast
  have "bird_vy (birdRef (collide ((physics stTerminal)\<lparr> pipesRef := ps, nextId := n, draws := d \<rparr>))) = 14"
    by (simp add: collide_bird physics_def stTerminal_def stLanded_def stSeeded_def
        worldNormal_def Let_def)
  moreover have "bird_vy (birdRef stTerminal) = 27 / 2"
    by (simp add: stTerminal_def stLanded_def stSeeded_def)
  ultimately have "collide ((physics stTerminal)\<lparr> pipesRef := ps, nextId := n, draws := d \<rparr>) \<noteq> stTerminal"
    by auto
  then show ?thesis using r u by simp
qed

subsection \<open>C5: reaching the ground\<close>

text \<open>
  C5. In a tick that runs (session running and not paused, positive spacing, queue not of
  length one), if the position after the integration step has \<open>y + r > groundY\<close>, the
  tick returns a state with \<open>y = groundY - r\<close> and the terminal flag set, and it has left
  through the early return: the score, the set of credited obstacles, the best score and
  the stored value are those of the start, and the tick counter has not advanced.
\<close>

theorem C5_ground_collision_ends_tick:
  assumes "running st" "\<not> paused st" "0 < pipeSpacing (worldRef st)" "length (pipesRef st) \<noteq> 1"
    and "bird_y (birdRef st) + (bird_vy (birdRef st) + gravity (worldRef st))
           + of_int (bird_r (birdRef st)) > of_int (groundY (worldRef st))"
  shows "\<exists>st'. update rnd st = Some (Inr st')
           \<and> bird_y (birdRef st') = of_int (groundY (worldRef st) - bird_r (birdRef st))
           \<and> gameOverRef st'
           \<and> score st' = score st \<and> scoredSetRef st' = scoredSetRef st \<and> best st' = best st
           \<and> writes st' = writes st
           \<and> world_t (worldRef st') = world_t (worldRef st)"
proof -
  from update_total[OF assms(1-4), of rnd] obtain ps n d where
    u: "update rnd st = Some (Inr (collide ((physics st)\<lparr> pipesRef := ps, nextId := n, draws := d \<rparr>)))"
    by blast
  let ?X = "(physics st)\<lparr> pipesRef := ps, nextId := n, draws := d \<rparr>"
  have g: "bird_y (birdRef ?X) + of_int (bird_r (birdRef ?X)) > of_int (groundY (worldRef ?X))"
    using assms(5) by (simp add: physics_def Let_def algebra_simps)
  have c: "collide ?X = endGame (?X\<lparr> birdRef := (birdRef ?X)\<lparr> bird_y := of_int (groundY (worldRef ?X) - bird_r (birdRef ?X)) \<rparr> \<rparr>)"
    using g unfolding collide_alt by (simp only: if_True)
  show ?thesis
    unfolding u c by (simp add: physics_def Let_def)
qed

text \<open>
  The witness is the scenario of the specification: radius 16, ground line 440, and the
  bird at \<open>y = 432\<close> after the integration step; the tick leaves it at 424, terminal.
\<close>

theorem C5_ground_collision_ends_tick_witness:
  "running stNearGround \<and> \<not> paused stNearGround \<and> 0 < pipeSpacing (worldRef stNearGround)
   \<and> length (pipesRef stNearGround) \<noteq> 1
   \<and> bird_y (birdRef stNearGround) + (bird_vy (birdRef stNearGround) + gravity (worldRef stNearGround)) = 432
   \<and> bird_r (birdRef stNearGround) = 16 \<and> groundY (worldRef stNearGround) = 440
   \<and> (\<exists>st'. update rnd0 stNearGround = Some (Inr st') \<and> bird_y (birdRef st') = 424 \<and> gameOverRef st')"
proof -
  have h: "running stNearGround" "\<not> paused stNearGround" "0 < pipeSpacing (worldRef stNearGround)"
    "length (pipesRef stNearGround) \<noteq> 1"
    "bird_y (birdRef stNearGround) + (bird_vy (birdRef stNearGround) + gravity (worldRef stNearGround))
           + of_int (bird_r (birdRef stNearGround)) > of_int (groundY (worldRef stNearGround))"
    by (simp_all add: stNearGround_def stSeeded_def world0_def pipesSeeded_def)
  have v: "bird_y (birdRef stNearGround) + (bird_vy (birdRef stNearGround) + gravity (worldRef stNearGround)) = 432"
    "bird_r (birdRef stNearGround) = 16" "groundY (worldRef stNearGround) = 440"
    by (simp_all add: stNearGround_def stSeeded_def world0_def)
  from C5_ground_collision_ends_tick[OF h, of rnd0] obtain st' where
    "update rnd0 stNearGround = Some (Inr st')"
    "bird_y (birdRef st') = of_int (groundY (worldRef stNearGround) - bird_r (birdRef stNearGround))"
    "gameOverRef st'" by blast
  then have "\<exists>st'. update rnd0 stNearGround = Some (Inr st') \<and> bird_y (birdRef st') = 424 \<and> gameOverRef st'"
    using v by simp
  then show ?thesis using h(1-4) v by simp
qed

subsection \<open>C6: the scaling law\<close>

text \<open>
  C6, as amended. For every mode and every viewport, the gravity, the flap impulse and the
  scroll speed of the computed profile are those of the scaling law; the obstacle width,
  the spacing and the ground line are the law's values rounded to the nearest integer;
  the gap height is \<open>round(max(120 * s, round(0.28 * H)) * gapFactor)\<close>, with
  \<open>s = H / 480\<close>: the code rounds \<open>0.28 * H\<close> before it takes the maximum and scales
  by the gap factor, and rounds the product. This integer is within 1.175 of the law's
  value.
\<close>

theorem C6_profile_scaling_rounded:
  "gravity (computeProfile m W H w) = sp_gravity (spec_compute m W H)
   \<and> flapImpulse (computeProfile m W H w) = sp_flapImpulse (spec_compute m W H)
   \<and> speed (computeProfile m W H w) = sp_scrollSpeed (spec_compute m W H)
   \<and> pipeWidth (computeProfile m W H w) = js_round (sp_obstacleWidth (spec_compute m W H))
   \<and> pipeSpacing (computeProfile m W H w) = js_round (sp_spacing (spec_compute m W H))
   \<and> groundY (computeProfile m W H w) = js_round (sp_groundLine (spec_compute m W H))
   \<and> pipeGap (computeProfile m W H w)
       = js_round (max (120 * (of_int H / 480)) (of_int (js_round ((28 / 100) * of_int H)))
                     * (case m of Easy \<Rightarrow> 135 / 100 | Normal \<Rightarrow> 1 | Hard \<Rightarrow> 85 / 100))
   \<and> \<bar>real_of_int (pipeGap (computeProfile m W H w)) - sp_gapHeight (spec_compute m W H)\<bar> \<le> 47 / 40"
proof -
  have gf: "gapFactor m = (case m of Easy \<Rightarrow> 135 / 100 | Normal \<Rightarrow> 1 | Hard \<Rightarrow> 85 / 100)"
    by (cases m) (simp_all add: gapFactor_def)
  have sf: "speedFactor m = (case m of Easy \<Rightarrow> 24 / 10 | Normal \<Rightarrow> 3 | Hard \<Rightarrow> 34 / 10)"
    by (cases m) (simp_all add: speedFactor_def)
  have f: "0 \<le> gapFactor m" "gapFactor m \<le> 135 / 100"
    by (simp_all add: gapFactor_def)
  have c54: "js_round 54 = 54" and c260: "js_round 260 = 260"
    by (simp_all add: js_round_def)
  have 1: "gravity (computeProfile m W H w) = sp_gravity (spec_compute m W H)"
    by (simp only: profile_fields spec_fields)
  have 2: "flapImpulse (computeProfile m W H w) = sp_flapImpulse (spec_compute m W H)"
    by (simp only: profile_fields spec_fields)
  have 3: "speed (computeProfile m W H w) = sp_scrollSpeed (spec_compute m W H)"
    by (simp only: profile_fields spec_fields sf)
  have 4: "pipeWidth (computeProfile m W H w) = js_round (sp_obstacleWidth (spec_compute m W H))"
    by (simp only: profile_fields spec_fields js_round_max c54 mult.commute)
  have 5: "pipeSpacing (computeProfile m W H w) = js_round (sp_spacing (spec_compute m W H))"
    by (simp only: profile_fields spec_fields js_round_max c260 mult.commute)
  have 6: "groundY (computeProfile m W H w) = js_round (sp_groundLine (spec_compute m W H))"
    by (simp only: profile_fields spec_fields)
  have "\<bar>real_of_int (pipeGap (computeProfile m W H w)) - sp_gapHeight (spec_compute m W H)\<bar>
          \<le> 1 / 2 + gapFactor m / 2"
    unfolding profile_fields spec_fields gf[symmetric] mult.commute[of "28 / 100" "of_int H"]
    by (rule gap_near[OF f(1)])
  then have 7: "\<bar>real_of_int (pipeGap (computeProfile m W H w)) - sp_gapHeight (spec_compute m W H)\<bar> \<le> 47 / 40"
    using f(2) by linarith
  have 8: "pipeGap (computeProfile m W H w)
       = js_round (max (120 * (of_int H / 480)) (of_int (js_round ((28 / 100) * of_int H)))
                     * (case m of Easy \<Rightarrow> 135 / 100 | Normal \<Rightarrow> 1 | Hard \<Rightarrow> 85 / 100))"
    unfolding profile_fields gf mult.commute[of "of_int H" "28 / 100"] ..
  show ?thesis using 1 2 3 4 5 6 7 8 by blast
qed

text \<open>
  The claim as stated fails on the four fields the code rounds: at 960 by 480 in normal
  mode the code has gap 134, width 58, spacing 307 and ground line 442, the law of the
  specification 134.4, 57.6, 307.2 and 441.6.
\<close>

theorem C6_profile_scaling_counterexample:
  "real_of_int (pipeGap (computeProfile Normal 960 480 world0)) \<noteq> sp_gapHeight (spec_compute Normal 960 480)
   \<and> real_of_int (pipeWidth (computeProfile Normal 960 480 world0)) \<noteq> sp_obstacleWidth (spec_compute Normal 960 480)
   \<and> real_of_int (pipeSpacing (computeProfile Normal 960 480 world0)) \<noteq> sp_spacing (spec_compute Normal 960 480)
   \<and> real_of_int (groundY (computeProfile Normal 960 480 world0)) \<noteq> sp_groundLine (spec_compute Normal 960 480)"
  by (simp add: computeProfile_normal worldNormal_def spec_fields)

subsection \<open>C7: the first tick at 960 by 480 in normal mode\<close>

text \<open>
  C7. Whatever the state before and whatever the generator returns, the session that the
  size and mode effect seeds at 960 by 480 in normal mode has gravity 0.5, flap impulse -9
  and the bird at \<open>y = 240\<close> with \<open>vy = 0\<close>; one tick gives \<open>vy = 0.5\<close> and \<open>y = 240.5\<close>;
  a flap and then one tick give \<open>vy = -8.5\<close> and \<open>y = 231.5\<close>.
\<close>

theorem C7_first_tick_scenario:
  fixes st rnd
  defines "s0 \<equiv> applySizeAndMode rnd (st\<lparr> displayW := 960, displayH := 480, mode := Normal \<rparr>)"
  shows "gravity (worldRef s0) = 1 / 2 \<and> flapImpulse (worldRef s0) = - 9
       \<and> bird_y (birdRef s0) = 240 \<and> bird_vy (birdRef s0) = 0
       \<and> (\<exists>s1. update rnd s0 = Some (Inr s1)
              \<and> bird_vy (birdRef s1) = 1 / 2 \<and> bird_y (birdRef s1) = 240 + 1 / 2)
       \<and> (\<exists>s2. update rnd (flap rnd s0) = Some (Inr s2)
              \<and> bird_vy (birdRef s2) = - (8 + 1 / 2) \<and> bird_y (birdRef s2) = 231 + 1 / 2)"
proof -
  note sd = seeded_session[of rnd st, folded s0_def]
  have f: "running (flap rnd s0)" "\<not> paused (flap rnd s0)" "pipeSpacing (worldRef (flap rnd s0)) = 307"
    "length (pipesRef (flap rnd s0)) = 6" "gravity (worldRef (flap rnd s0)) = 1 / 2"
    "groundY (worldRef (flap rnd s0)) = 442"
    "birdRef (flap rnd s0) = \<lparr> bird_x = 173, bird_y = 240, bird_vy = - 9, bird_r = 16, wingAngle = - (8 / 10) \<rparr>"
    using sd by (simp_all add: flap_def)
  from update_total[of s0 rnd] sd obtain ps n d where
    u1: "update rnd s0 = Some (Inr (collide ((physics s0)\<lparr> pipesRef := ps, nextId := n, draws := d \<rparr>)))"
    by auto
  from update_total[of "flap rnd s0" rnd] f obtain ps' n' d' where
    u2: "update rnd (flap rnd s0) = Some (Inr (collide ((physics (flap rnd s0))\<lparr> pipesRef := ps', nextId := n', draws := d' \<rparr>)))"
    by auto
  have b1: "birdRef (collide ((physics s0)\<lparr> pipesRef := ps, nextId := n, draws := d \<rparr>))
            = \<lparr> bird_x = 173, bird_y = 240 + 1 / 2, bird_vy = 1 / 2, bird_r = 16, wingAngle = 0 \<rparr>"
    by (simp add: collide_bird physics_def Let_def sd)
  have b2: "birdRef (collide ((physics (flap rnd s0))\<lparr> pipesRef := ps', nextId := n', draws := d' \<rparr>))
            = \<lparr> bird_x = 173, bird_y = 231 + 1 / 2, bird_vy = - (8 + 1 / 2), bird_r = 16, wingAngle = - (6 / 10) \<rparr>"
    by (simp add: collide_bird physics_def Let_def f)
  show ?thesis
    unfolding u1 u2 using b1 b2 sd by simp
qed

text \<open>
  The instance at the first render with nothing stored and the generator \<open>rnd0\<close>, which
  is the mount in a window 992 wide.
\<close>

theorem C7_first_tick_scenario_witness:
  "(\<exists>s1. update rnd0 stSeeded = Some (Inr s1)
         \<and> bird_vy (birdRef s1) = 1 / 2 \<and> bird_y (birdRef s1) = 481 / 2)
   \<and> (\<exists>s2. update rnd0 (flap rnd0 stSeeded) = Some (Inr s2)
         \<and> bird_vy (birdRef s2) = - (17 / 2) \<and> bird_y (birdRef s2) = 463 / 2)"
proof -
  have "stMount\<lparr> displayW := 960, displayH := 480, mode := Normal \<rparr> = stMount"
    by (simp add: stMount_def)
  then have "applySizeAndMode rnd0 (stMount\<lparr> displayW := 960, displayH := 480, mode := Normal \<rparr>) = stSeeded"
    using stSeeded_is_seeded by simp
  with C7_first_tick_scenario[of rnd0 stMount] show ?thesis by simp
qed

subsection \<open>C8: writes of the best score\<close>




subsection \<open>C9 and C10: the flap\<close>

text \<open>
  C9. In a session that is running, not paused and not terminal, a flap assigns the
  flap impulse of the profile to \<open>vy\<close>, and a second flap right after it changes nothing
  but the log of sounds, which gets one more flap sound: every field of the world state
  is the same as after one flap.
\<close>

theorem C9_flap_assigns_impulse_idempotent:
  "running st \<Longrightarrow> \<not> paused st \<Longrightarrow> \<not> gameOverRef st \<Longrightarrow>
   bird_vy (birdRef (flap rnd st)) = flapImpulse (worldRef st) \<and>
   flap rnd (flap rnd st) = (flap rnd st)\<lparr> sounds := sounds (flap rnd st) @ [SfxFlap] \<rparr>"
  by (simp add: flap_def)

text \<open>The witness: the seeded session, where the two flaps leave \<open>vy = -9\<close>.\<close>

theorem C9_flap_assigns_impulse_idempotent_witness:
  "running stSeeded \<and> \<not> paused stSeeded \<and> \<not> gameOverRef stSeeded
   \<and> bird_vy (birdRef (flap rnd0 stSeeded)) = - 9
   \<and> bird_vy (birdRef (flap rnd0 (flap rnd0 stSeeded))) = - 9
   \<and> birdRef (flap rnd0 (flap rnd0 stSeeded)) = birdRef (flap rnd0 stSeeded)"
proof -
  have h: "running stSeeded" "\<not> paused stSeeded" "\<not> gameOverRef stSeeded"
    by (simp_all add: stSeeded_def)
  have w: "flapImpulse (worldRef stSeeded) = - 9" by (simp add: stSeeded_def worldNormal_def)
  from C9_flap_assigns_impulse_idempotent[OF h, of rnd0]
  have a: "bird_vy (birdRef (flap rnd0 stSeeded)) = flapImpulse (worldRef stSeeded)"
    and b: "flap rnd0 (flap rnd0 stSeeded)
              = (flap rnd0 stSeeded)\<lparr> sounds := sounds (flap rnd0 stSeeded) @ [SfxFlap] \<rparr>"
    by simp_all
  have "birdRef (flap rnd0 (flap rnd0 stSeeded)) = birdRef (flap rnd0 stSeeded)"
    by (subst b) simp
  then show ?thesis using h a w by simp
qed

text \<open>
  C10. A flap in a session that is running, paused and not terminal returns the state
  unchanged: no velocity is assigned, nothing is reset, no sound is logged.
\<close>

theorem C10_flap_while_paused_noop:
  "running st \<Longrightarrow> paused st \<Longrightarrow> \<not> gameOverRef st \<Longrightarrow> flap rnd st = st"
  by (simp add: flap_def)

text \<open>The witness: the seeded session, paused by the player.\<close>

theorem C10_flap_while_paused_noop_witness:
  "running stPausedMid \<and> paused stPausedMid \<and> \<not> gameOverRef stPausedMid
   \<and> flap rnd0 stPausedMid = stPausedMid"
proof -
  have h: "running stPausedMid" "paused stPausedMid" "\<not> gameOverRef stPausedMid"
    by (simp_all add: stPausedMid_def stSeeded_def)
  show ?thesis using h C10_flap_while_paused_noop[OF h, of rnd0] by simp
qed

end
